theory Spec2Isabelle
  imports Main "HOL-Library.Char_ord" "HOL-Library.List_Lexorder"
    "HOL-Library.Product_Lexorder" "HOL-Library.Word"
begin

unbundle bit_operations_syntax

section \<open>Values shared by the services\<close>

text \<open>
  JSON values, as \<^verbatim>\<open>JSON.parse\<close> produces them and as the JSONB column and the
  metadata arguments carry them. An object is an association list in key order.
\<close>

datatype json =
    JNull
  | JBool bool
  | JNum int
  | JStr string
  | JArr "json list"
  | JObj "(string \<times> json) list"

text \<open>JavaScript truthiness of a JSON value (\<^verbatim>\<open>metadata.data ? ... : null\<close>).\<close>

fun truthy :: "json \<Rightarrow> bool" where
  "truthy JNull = False"
| "truthy (JBool b) = b"
| "truthy (JNum n) = (n \<noteq> 0)"
| "truthy (JStr s) = (s \<noteq> [])"
| "truthy (JArr _) = True"
| "truthy (JObj _) = True"

text \<open>
  Every \<^verbatim>\<open>throw\<close> of the modelled code, and every exception that the runtime or a
  collaborator raises inside it, is a value of this type.
\<close>

datatype error =
    EntryNotFound                \<comment> \<open>\<^verbatim>\<open>new Error('Entry not found')\<close>\<close>
  | KeyNotFound                  \<comment> \<open>\<^verbatim>\<open>new Error('Key not found')\<close>\<close>
  | CannotUse string             \<comment> \<open>\<^verbatim>\<open>new Error(`Cannot use ${status} key`)\<close>\<close>
  | InvalidKeyId                 \<comment> \<open>\<^verbatim>\<open>new Error('Invalid key ID')\<close>\<close>
  | TypeError string             \<comment> \<open>raised by the JavaScript runtime\<close>
  | RangeError string            \<comment> \<open>raised by the runtime for an argument out of range\<close>
  | UniqueConstraintError        \<comment> \<open>the primary key rejects a second row with the same id\<close>
  | DatabaseError string         \<comment> \<open>the database rejects a value for the type of its column\<close>
  | External string              \<comment> \<open>an exception of a collaborator (anchor, vault, transport, cipher)\<close>

section \<open>Audit ledger (backend/models/AuditLog.js)\<close>

subsection \<open>Data model\<close>

datatype action = READ | WRITE | DELETE | PREDICT | LOGIN | EXPORT

fun action_name :: "action \<Rightarrow> string" where
  "action_name READ = ''READ''"
| "action_name WRITE = ''WRITE''"
| "action_name DELETE = ''DELETE''"
| "action_name PREDICT = ''PREDICT''"
| "action_name LOGIN = ''LOGIN''"
| "action_name EXPORT = ''EXPORT''"

text \<open>
  A row of the \<^verbatim>\<open>LogEntry\<close> table. The primary key is a version-4 UUID, the
  timestamp is in milliseconds since the epoch.
\<close>

record log_entry =
  id' :: string
  timestamp :: int
  userId :: string
  action :: action
  resourceType :: "string option"
  resourceId :: "string option"
  ipAddress :: "string option"
  userAgent :: "string option"
  queryParams :: "json option"
  dataHash :: "string option"
  blockchainTxId :: "string option"
  verified :: bool

text \<open>The third argument of \<^verbatim>\<open>log\<close>, with the fields that \<^verbatim>\<open>log\<close> reads.\<close>

record metadata =
  md_resourceType :: "string option"
  md_resourceId :: "string option"
  md_ip :: "string option"
  md_userAgent :: "string option"
  md_query :: "json option"
  md_data :: "json option"

datatype ready_state = CONNECTING | OPEN | CLOSING | CLOSED

text \<open>
  A connected WebSocket client: its state, the filters of its last SUBSCRIBE message (the
  entries of the filter object), what its \<^verbatim>\<open>send\<close> raises if it raises (the transport is
  a collaborator), and the events delivered to it so far.
\<close>

record ws_client =
  readyState :: ready_state
  filters :: "(string \<times> json) list option"
  sendRaises :: "string option"
  delivered :: "(string \<times> log_entry) list"

record ledger =
  rows :: "log_entry list"
  clients :: "ws_client list"

text \<open>
  What one call reads from outside the class: the hash and string primitives of the runtime,
  the process environment, the anchor (\<^verbatim>\<open>Blockchain\<close>; \<open>Inl\<close> is the message of the
  exception it raises, \<open>Inr\<close> the transaction hash or the answer), the identifier and the two
  clocks (the database's \<^verbatim>\<open>CURRENT_TIMESTAMP\<close> and the server's \<^verbatim>\<open>Date.now()\<close>).

  The database types its columns (the model is defined with PostgreSQL's \<^verbatim>\<open>UUID\<close>,
  \<^verbatim>\<open>STRING(n)\<close> and \<^verbatim>\<open>JSONB\<close>). What it does with a value is taken from outside as well:
  \<open>uuidInput\<close> is its reading of a string as a uuid, in canonical form, or \<open>None\<close> when the
  string is not one; \<open>asColumns\<close> gives the values of a new row as the columns hold them (a
  JSONB object in the store's key order, say), or \<open>None\<close> when a value does not fit its
  column (an address longer than 45 characters, say).
\<close>

record ledger_env =
  sha256 :: "string \<Rightarrow> string"
  stringify :: "json \<Rightarrow> string"
  dateString :: "int \<Rightarrow> string"
  blockchainAudit :: bool
  hospitalId :: "string option"
  submitAuditBatch :: "string option \<Rightarrow> string option \<Rightarrow> string list \<Rightarrow> string + string"
  verifyTransaction :: "string \<Rightarrow> string \<Rightarrow> string + bool"
  uuidv4 :: string
  currentTimestamp :: int
  dateNow :: int
  uuidInput :: "string \<Rightarrow> string option"
  asColumns :: "log_entry \<Rightarrow> log_entry option"

subsection \<open>Hashing\<close>

definition hashData :: "ledger_env \<Rightarrow> json \<Rightarrow> string" where
  "hashData env d = sha256 env (stringify env d)"

text \<open>A template literal prints a null column as \<^verbatim>\<open>null\<close>.\<close>

definition hashEntry :: "ledger_env \<Rightarrow> log_entry \<Rightarrow> string" where
  "hashEntry env e =
     sha256 env (userId e @ ''|'' @ action_name (action e) @ ''|'' @
       (case resourceType e of None \<Rightarrow> ''null'' | Some r \<Rightarrow> r) @ ''|'' @
       dateString env (timestamp e))"

text \<open>
  One pass of the inner \<^verbatim>\<open>for\<close> loop of \<^verbatim>\<open>_calculateMerkleRoot\<close>: adjacent hashes
  are concatenated and hashed; \<^verbatim>\<open>hashes[i+1] || hashes[i]\<close> takes the left hash again
  when the right one is missing or empty.
\<close>

fun newLevel :: "ledger_env \<Rightarrow> string list \<Rightarrow> string list" where
  "newLevel env [] = []"
| "newLevel env [h] = [sha256 env (h @ h)]"
| "newLevel env (h # h' # hs) =
     sha256 env (h @ (if h' = [] then h else h')) # newLevel env hs"

text \<open>
  \<^verbatim>\<open>_calculateMerkleRoot\<close>. The list \<^verbatim>\<open>hashes\<close> is declared \<^verbatim>\<open>const\<close>, so the
  assignment \<^verbatim>\<open>hashes = newLevel\<close> at the end of the first pass of the \<^verbatim>\<open>while\<close> loop
  raises a TypeError; the loop body is entered when there are at least two hashes.
  Otherwise the result is \<^verbatim>\<open>hashes[0]\<close>, undefined for an empty batch.
\<close>

definition calculateMerkleRoot :: "ledger_env \<Rightarrow> log_entry list \<Rightarrow> error + string option" where
  "calculateMerkleRoot env entries =
     (let hashes = map (hashEntry env) entries in
      if length hashes > 1
      then (let level = newLevel env hashes in Inl (TypeError ''Assignment to constant variable.''))
      else Inr (case hashes of [] \<Rightarrow> None | h # _ \<Rightarrow> Some h))"

subsection \<open>Queries and anchoring\<close>

text \<open>
  \<^verbatim>\<open>findAll({ where: { verified: false }, order: [['timestamp', 'ASC']], limit: 100 })\<close>.
  Rows with equal timestamps keep their insertion order here.
\<close>

definition getUnverifiedBatch :: "ledger \<Rightarrow> log_entry list" where
  "getUnverifiedBatch st = take 100 (sort_key timestamp (filter (\<lambda>e. \<not> verified e) (rows st)))"

text \<open>
  \<^verbatim>\<open>findByPk\<close>: the id is compared as a uuid, so a string that is not one makes the query
  raise; otherwise the row with that uuid, or null. The ids of the rows are in canonical
  form, as the generator writes them.
\<close>

definition findByPk :: "ledger_env \<Rightarrow> ledger \<Rightarrow> string \<Rightarrow> error + log_entry option" where
  "findByPk env st k =
     (case uuidInput env k of
        None \<Rightarrow> Inl (DatabaseError ''invalid input syntax for type uuid'')
      | Some u \<Rightarrow> Inr (find (\<lambda>e. id' e = u) (rows st)))"

text \<open>\<^verbatim>\<open>LogEntry.update({ blockchainTxId, verified: true }, { where: { id: ids } })\<close>.\<close>

definition markVerified :: "string \<Rightarrow> string list \<Rightarrow> ledger \<Rightarrow> ledger" where
  "markVerified tx ids st =
     st\<lparr>rows := map (\<lambda>e. if id' e \<in> set ids
                          then e\<lparr>blockchainTxId := Some tx, verified := True\<rparr> else e) (rows st)\<rparr>"

text \<open>The condition under which the hook submits a batch.\<close>

definition batchDue :: "ledger_env \<Rightarrow> log_entry list \<Rightarrow> bool" where
  "batchDue env batch =
     (length batch \<ge> 5 \<or>
      (case batch of [] \<Rightarrow> False | b # _ \<Rightarrow> dateNow env - timestamp b > 600000))"

definition anchorToBlockchain :: "ledger_env \<Rightarrow> ledger \<Rightarrow> log_entry \<Rightarrow> (error + unit) \<times> ledger" where
  "anchorToBlockchain env st entry =
     (if blockchainAudit env then
        (let batch = getUnverifiedBatch st in
         if batchDue env batch then
           (case calculateMerkleRoot env batch of
              Inl err \<Rightarrow> (Inl err, st)
            | Inr merkleRoot \<Rightarrow>
                (case submitAuditBatch env (hospitalId env) merkleRoot (map id' batch) of
                   Inl msg \<Rightarrow> (Inl (External msg), st)
                 | Inr tx \<Rightarrow> (Inr (), markVerified tx (map id' batch) st)))
         else (Inr (), st))
      else (Inr (), st))"

text \<open>
  \<^verbatim>\<open>LogEntry.create\<close>: the values are stored as their columns hold them, or rejected by
  the database; the defaults give the row its id, its timestamp and \<^verbatim>\<open>verified = false\<close>;
  the primary key rejects an id that is already there; the row is inserted, and then the
  \<^verbatim>\<open>afterCreate\<close> hook runs. An exception of the hook rejects the call, with the row
  already inserted. The instance returned holds the row as it was inserted, before the hook
  ran.
\<close>

definition withDefaults :: "ledger_env \<Rightarrow> log_entry \<Rightarrow> log_entry" where
  "withDefaults env values =
     values\<lparr>id' := uuidv4 env, timestamp := currentTimestamp env,
            blockchainTxId := None, verified := False\<rparr>"

definition create :: "ledger_env \<Rightarrow> ledger \<Rightarrow> log_entry \<Rightarrow> (error + log_entry) \<times> ledger" where
  "create env st values =
     (case asColumns env values of
        None \<Rightarrow> (Inl (DatabaseError ''value rejected by its column''), st)
      | Some stored \<Rightarrow>
          (let entry = withDefaults env stored in
           if id' entry \<in> set (map id' (rows st)) then (Inl UniqueConstraintError, st)
           else
             (let st1 = st\<lparr>rows := rows st @ [entry]\<rparr> in
              case anchorToBlockchain env st1 entry of
                (Inl err, st2) \<Rightarrow> (Inl err, st2)
              | (Inr _, st2) \<Rightarrow> (Inr entry, st2))))"

subsection \<open>Real-time notification\<close>

text \<open>
  \<^verbatim>\<open>entry[key]\<close> as a value that \<^verbatim>\<open>===\<close> can equate with a parsed JSON value: the
  string and boolean columns, null, and a query that is null, a string, a number or a
  boolean. A Date, an object, an array and a missing property are equal to no parsed value. The properties that the ORM adds to
  an instance beside the columns are not modelled.
\<close>

fun primitive :: "json \<Rightarrow> bool" where
  "primitive (JArr _) = False"
| "primitive (JObj _) = False"
| "primitive _ = True"

definition str_or_null :: "string option \<Rightarrow> json" where
  "str_or_null v = (case v of None \<Rightarrow> JNull | Some s \<Rightarrow> JStr s)"

definition entryField :: "log_entry \<Rightarrow> string \<Rightarrow> json option" where
  "entryField e key =
     (if key = ''id'' then Some (JStr (id' e))
      else if key = ''userId'' then Some (JStr (userId e))
      else if key = ''action'' then Some (JStr (action_name (action e)))
      else if key = ''resourceType'' then Some (str_or_null (resourceType e))
      else if key = ''resourceId'' then Some (str_or_null (resourceId e))
      else if key = ''ipAddress'' then Some (str_or_null (ipAddress e))
      else if key = ''userAgent'' then Some (str_or_null (userAgent e))
      else if key = ''dataHash'' then Some (str_or_null (dataHash e))
      else if key = ''blockchainTxId'' then Some (str_or_null (blockchainTxId e))
      else if key = ''verified'' then Some (JBool (verified e))
      else if key = ''queryParams''
        then (case queryParams e of
                None \<Rightarrow> Some JNull
              | Some q \<Rightarrow> if primitive q then Some q else None)
      else None)"

definition strictEq :: "json option \<Rightarrow> json \<Rightarrow> bool" where
  "strictEq field v = (case field of None \<Rightarrow> False | Some w \<Rightarrow> primitive v \<and> w = v)"

definition matchesFilters :: "log_entry \<Rightarrow> (string \<times> json) list \<Rightarrow> bool" where
  "matchesFilters entry fs =
     list_all (\<lambda>(key, v). strictEq (entryField entry key) v \<or>
        (case v of JArr vs \<Rightarrow> list_ex (strictEq (entryField entry key)) vs | _ \<Rightarrow> False)) fs"

definition wantsEvent :: "ws_client \<Rightarrow> log_entry \<Rightarrow> bool" where
  "wantsEvent c entry =
     (readyState c = OPEN \<and>
      (case filters c of None \<Rightarrow> True | Some fs \<Rightarrow> matchesFilters entry fs))"

text \<open>
  \<^verbatim>\<open>_notifyClients\<close>: the \<^verbatim>\<open>forEach\<close> has no handler, so the first \<^verbatim>\<open>send\<close> that
  raises ends it; the clients before it have received the event.
\<close>

fun notifyClients :: "string \<Rightarrow> log_entry \<Rightarrow> ws_client list \<Rightarrow> (error + unit) \<times> ws_client list" where
  "notifyClients eventType entry [] = (Inr (), [])"
| "notifyClients eventType entry (c # cs) =
     (if wantsEvent c entry then
        (case sendRaises c of
           Some msg \<Rightarrow> (Inl (External msg), c # cs)
         | None \<Rightarrow>
             (case notifyClients eventType entry cs of
                (r, cs') \<Rightarrow> (r, c\<lparr>delivered := delivered c @ [(eventType, entry)]\<rparr> # cs')))
      else (case notifyClients eventType entry cs of (r, cs') \<Rightarrow> (r, c # cs')))"

subsection \<open>The public operations\<close>

text \<open>
  The object that \<^verbatim>\<open>log\<close> passes to \<^verbatim>\<open>create\<close>. It names neither the id nor the
  timestamp (the values given to them here are replaced by the defaults), and of
  \<^verbatim>\<open>metadata.data\<close> it keeps the hash.
\<close>

definition entryValues :: "ledger_env \<Rightarrow> string \<Rightarrow> action \<Rightarrow> metadata \<Rightarrow> log_entry" where
  "entryValues env uid act md =
     \<lparr>id' = [], timestamp = 0, userId = uid, action = act,
      resourceType = md_resourceType md, resourceId = md_resourceId md,
      ipAddress = md_ip md, userAgent = md_userAgent md,
      queryParams = md_query md,
      dataHash = (case md_data md of
                    None \<Rightarrow> None
                  | Some d \<Rightarrow> if truthy d then Some (hashData env d) else None),
      blockchainTxId = None, verified = False\<rparr>"

definition log :: "ledger_env \<Rightarrow> ledger \<Rightarrow> string \<Rightarrow> action \<Rightarrow> metadata \<Rightarrow> (error + log_entry) \<times> ledger" where
  "log env st uid act md =
     (case create env st (entryValues env uid act md) of
        (Inl err, st1) \<Rightarrow> (Inl err, st1)
      | (Inr entry, st1) \<Rightarrow>
          (case notifyClients ''NEW_ENTRY'' entry (clients st1) of
             (Inl err, cs) \<Rightarrow> (Inl err, st1\<lparr>clients := cs\<rparr>)
           | (Inr _, cs) \<Rightarrow> (Inr entry, st1\<lparr>clients := cs\<rparr>)))"

text \<open>\<^verbatim>\<open>if (entry.blockchainTxId)\<close> is false for null and for the empty string.\<close>

definition verifyEntry :: "ledger_env \<Rightarrow> ledger \<Rightarrow> string \<Rightarrow> error + bool" where
  "verifyEntry env st entryId =
     (case findByPk env st entryId of
        Inl err \<Rightarrow> Inl err
      | Inr None \<Rightarrow> Inl EntryNotFound
      | Inr (Some entry) \<Rightarrow>
          (case blockchainTxId entry of
             None \<Rightarrow> Inr False
           | Some tx \<Rightarrow>
               if tx \<noteq> []
               then (case verifyTransaction env tx (hashEntry env entry) of
                       Inl msg \<Rightarrow> Inl (External msg)
                     | Inr ok \<Rightarrow> Inr ok)
               else Inr False))"

text \<open>An entry that \<^verbatim>\<open>verifyEntry\<close> treats as not anchored.\<close>

definition unanchored :: "log_entry \<Rightarrow> bool" where
  "unanchored e = (blockchainTxId e = None \<or> blockchainTxId e = Some [])"

text \<open>A sequence of \<^verbatim>\<open>log\<close> calls, each with its own surroundings; a call that raises
  leaves the ledger as it was when the exception left it, and the next call goes on.\<close>

fun logAll :: "(ledger_env \<times> string \<times> action \<times> metadata) list \<Rightarrow> ledger \<Rightarrow> ledger" where
  "logAll [] st = st"
| "logAll ((env, uid, act, md) # calls) st = logAll calls (snd (log env st uid act md))"

subsection \<open>Notions used to state the properties of the ledger\<close>

text \<open>The ledger right after the insertion of a row, and the condition under which the hook
  then submits a batch.\<close>

definition inserted :: "ledger \<Rightarrow> log_entry \<Rightarrow> ledger" where
  "inserted st e = st\<lparr>rows := rows st @ [e]\<rparr>"


text \<open>What a row holds apart from the two columns that anchoring writes.\<close>

definition content :: "log_entry \<Rightarrow> log_entry" where
  "content e = e\<lparr>blockchainTxId := None, verified := False\<rparr>"





section \<open>Key management (KeyManagementService, keyManagement.js)\<close>

subsection \<open>Data model\<close>

text \<open>
  A rotation policy as the code reads it: its \<^verbatim>\<open>name\<close>, \<^verbatim>\<open>maxLifetime\<close> and
  \<^verbatim>\<open>usageLimit\<close> properties, each possibly undefined. The four policies of the table
  define the first two.
\<close>

record rotation_policy =
  name :: "string option"
  maxLifetime :: "nat option"
  usageLimit :: "nat option"

text \<open>
  A FHIR Device resource as \<^verbatim>\<open>_storeKeyMetadata\<close> writes it and \<^verbatim>\<open>_parseKeyMetadata\<close>
  reads it: the server's id, \<^verbatim>\<open>identifier[0].value\<close>, \<^verbatim>\<open>type.coding[0].code\<close>,
  \<^verbatim>\<open>owner.reference\<close> (or null), the codes of \<^verbatim>\<open>meta.tag\<close> (when there are tags), and
  the extensions, each a url with its items (a url and a \<^verbatim>\<open>valueString\<close>, which an item
  written from an undefined value lacks). The public key is kept as its bytes; its base64
  text in the resource is not modelled.
\<close>

record device =
  dev_id :: string
  dev_identifier :: string
  typeCode :: string
  dev_owner :: "string option"
  tag :: "string list option"
  extension :: "(string \<times> (string \<times> string option) list) list"

text \<open>The object that \<^verbatim>\<open>_parseKeyMetadata\<close> returns. It has no \<^verbatim>\<open>extensions\<close> property.\<close>

record key_meta =
  deviceId :: string
  keyId :: string
  keyType :: string
  owner :: "string option"
  publicKey :: string
  quantumFingerprint :: "string option"
  rotationPolicy :: rotation_policy
  securityTags :: "string list option"
  status :: string

record cache_entry =
  privateKey :: string
  expiresAt :: int

text \<open>The FHIR server's Device resources and the in-memory cache of private keys.\<close>

record kms =
  devices :: "device list"
  keyCache :: "string \<rightharpoonup> cache_entry"

record key_material =
  km_publicKey :: string
  km_quantumFingerprint :: string
  km_privateKey :: string

text \<open>
  The collaborators of one call: the key vault, the anchor, the audit log, the FHIR server
  (the id it gives a new resource, and whether storing a Provenance succeeds), the random
  identifier and token, and the clock. \<open>Inl\<close> is the message of an exception.
\<close>

record kms_env =
  generateKeyMaterial :: "nat \<Rightarrow> string \<Rightarrow> string + key_material"
  retrievePrivateKey :: "string \<Rightarrow> string option \<Rightarrow> string \<Rightarrow> string + string"
  randomUUID :: string
  mfaToken :: string
  submitKeyGeneration :: "string + string"
  blockchainRevokeKey :: "string + unit"
  auditLog :: "string + unit"
  createdId :: string
  createProvenance :: "string + unit"
  kmsNow :: int

text \<open>The parameters of \<^verbatim>\<open>generateKey\<close>; \<open>None\<close> is a property left undefined.\<close>

record key_params =
  p_keyType :: "string option"
  p_ownerId :: "string option"
  p_ownerType :: "string option"
  p_keySize :: "nat option"
  p_rotationPolicy :: "string option"

record generated =
  g_keyId :: string
  g_publicKey :: string
  g_meta :: device

text \<open>The second argument of \<^verbatim>\<open>_updateKeyMetadata\<close>.\<close>

record updates =
  u_status :: string
  u_at :: int
  u_replacedBy :: "string option"
  u_revocationReason :: "string option"

subsection \<open>Policies and tags\<close>

text \<open>
  The tables \<^verbatim>\<open>policies\<close> and \<^verbatim>\<open>tags\<close> are object literals, so a lookup by a name
  that every object inherits finds the inherited member, which is truthy and is returned:
  a function, whose \<^verbatim>\<open>name\<close> is the property's (\<^verbatim>\<open>Object\<close> for \<^verbatim>\<open>constructor\<close>),
  or for \<^verbatim>\<open>__proto__\<close> the prototype, which has no name. None of them has a
  \<^verbatim>\<open>maxLifetime\<close> or a \<^verbatim>\<open>usageLimit\<close>, and none is written into a resource as tags.
\<close>

definition inheritedNames :: "string list" where
  "inheritedNames =
     [''constructor'', ''__defineGetter__'', ''__defineSetter__'', ''hasOwnProperty'',
      ''__lookupGetter__'', ''__lookupSetter__'', ''isPrototypeOf'', ''propertyIsEnumerable'',
      ''toString'', ''valueOf'', ''__proto__'', ''toLocaleString'']"

definition inheritedMember :: "string \<Rightarrow> rotation_policy" where
  "inheritedMember n =
     \<lparr>name = (if n = ''constructor'' then Some ''Object''
              else if n = ''__proto__'' then None else Some n),
      maxLifetime = None, usageLimit = None\<rparr>"

definition policies :: "(string \<times> rotation_policy) list" where
  "policies =
     [(''default'', \<lparr>name = Some ''default'', maxLifetime = Some 90, usageLimit = Some 1000\<rparr>),
      (''strict'', \<lparr>name = Some ''strict'', maxLifetime = Some 30, usageLimit = Some 500\<rparr>),
      (''long-term'', \<lparr>name = Some ''long-term'', maxLifetime = Some 365, usageLimit = None\<rparr>),
      (''ephemeral'', \<lparr>name = Some ''ephemeral'', maxLifetime = Some 1, usageLimit = Some 10\<rparr>)]"

definition getDefaultPolicy :: "string option \<Rightarrow> rotation_policy" where
  "getDefaultPolicy kt =
     (if kt = Some ''data-encryption''
        then \<lparr>name = Some ''default'', maxLifetime = Some 90, usageLimit = Some 1000\<rparr>
      else if kt = Some ''authentication''
        then \<lparr>name = Some ''strict'', maxLifetime = Some 30, usageLimit = Some 500\<rparr>
      else if kt = Some ''audit-log''
        then \<lparr>name = Some ''long-term'', maxLifetime = Some 365, usageLimit = None\<rparr>
      else \<lparr>name = Some ''default'', maxLifetime = Some 90, usageLimit = Some 1000\<rparr>)"

text \<open>
  \<^verbatim>\<open>_getRotationPolicy\<close>: \<^verbatim>\<open>policies[name] || this._getDefaultPolicy(keyType)\<close>. An
  undefined name is the key \<^verbatim>\<open>undefined\<close>, which the table does not have.
\<close>

definition getRotationPolicy :: "string option \<Rightarrow> string option \<Rightarrow> rotation_policy" where
  "getRotationPolicy n kt =
     (case n of
        None \<Rightarrow> getDefaultPolicy kt
      | Some nm \<Rightarrow>
          (case map_of policies nm of
             Some p \<Rightarrow> p
           | None \<Rightarrow> if nm \<in> set inheritedNames then inheritedMember nm
                     else getDefaultPolicy kt))"

text \<open>
  \<^verbatim>\<open>_getSecurityTags\<close>: \<^verbatim>\<open>tags[keyType] || tags['data-encryption']\<close>; \<open>None\<close> when the
  lookup gives an inherited member.
\<close>

definition getSecurityTags :: "string \<Rightarrow> string list option" where
  "getSecurityTags kt =
     (if kt = ''data-encryption'' then Some [''CONFIDENTIAL'']
      else if kt = ''authentication'' then Some [''AUTHENTICATION'']
      else if kt = ''audit-log'' then Some [''INTEGRITY'']
      else if kt \<in> set inheritedNames then None
      else Some [''CONFIDENTIAL''])"

subsection \<open>Key metadata in the FHIR server\<close>

definition keyMetadataUrl :: string where
  "keyMetadataUrl = ''http://hl7.org/fhir/key-metadata''"

definition undefinedProperty :: "string \<Rightarrow> error" where
  "undefinedProperty p =
     TypeError (''Cannot read properties of undefined (reading '' @ [CHR 0x27] @ p @ [CHR 0x27] @ '')'')"

text \<open>
  \<^verbatim>\<open>_parseKeyMetadata\<close>: a missing extension or a missing item makes the property access
  on \<^verbatim>\<open>undefined\<close> raise, and so does \<^verbatim>\<open>Buffer.from\<close> of a public key without a value;
  a missing or empty status reads as \<^verbatim>\<open>active\<close>.
\<close>

definition parseKeyMetadata :: "device \<Rightarrow> error + key_meta" where
  "parseKeyMetadata d =
     (case map_of (extension d) keyMetadataUrl of
        None \<Rightarrow> Inl (undefinedProperty ''extension'')
      | Some items \<Rightarrow>
          (case map_of items ''publicKey'' of
             None \<Rightarrow> Inl (undefinedProperty ''valueString'')
           | Some None \<Rightarrow> Inl (TypeError ''The first argument must be of type string'')
           | Some (Some pk) \<Rightarrow>
               (case map_of items ''quantumFingerprint'' of
                  None \<Rightarrow> Inl (undefinedProperty ''valueString'')
                | Some fp \<Rightarrow>
                    (case map_of items ''rotationPolicy'' of
                       None \<Rightarrow> Inl (undefinedProperty ''valueString'')
                     | Some pol \<Rightarrow>
                         Inr \<lparr>deviceId = dev_id d, keyId = dev_identifier d, keyType = typeCode d,
                              owner = dev_owner d, publicKey = pk, quantumFingerprint = fp,
                              rotationPolicy = getRotationPolicy pol None,
                              securityTags = tag d,
                              status = (case map_of items ''status'' of
                                          Some (Some s) \<Rightarrow> if s = [] then ''active'' else s
                                        | _ \<Rightarrow> ''active'')\<rparr>))))"

text \<open>\<^verbatim>\<open>_getKeyMetadata\<close>: the first Device with the identifier, parsed; null when none.\<close>

definition getKeyMetadata :: "kms \<Rightarrow> string \<Rightarrow> error + key_meta option" where
  "getKeyMetadata st k =
     (case find (\<lambda>d. dev_identifier d = k) (devices st) of
        None \<Rightarrow> Inr None
      | Some d \<Rightarrow> (case parseKeyMetadata d of Inl err \<Rightarrow> Inl err | Inr m \<Rightarrow> Inr (Some m)))"

text \<open>
  \<^verbatim>\<open>_storeKeyMetadata\<close>: the Device has the three items below and no status item; the
  result of \<^verbatim>\<open>fhir.create\<close> is the stored resource with the server's id.
\<close>

definition storeKeyMetadata :: "kms_env \<Rightarrow> kms \<Rightarrow> key_meta \<Rightarrow> device \<times> kms" where
  "storeKeyMetadata env st m =
     (let d = \<lparr>dev_id = createdId env, dev_identifier = keyId m, typeCode = keyType m,
               dev_owner = owner m, tag = securityTags m,
               extension = [(keyMetadataUrl,
                  [(''quantumFingerprint'', quantumFingerprint m),
                   (''rotationPolicy'', name (rotationPolicy m)),
                   (''publicKey'', Some (publicKey m))])]\<rparr>
      in (d, st\<lparr>devices := devices st @ [d]\<rparr>))"

text \<open>
  \<^verbatim>\<open>_updateKeyMetadata\<close>. After the lookup the function builds the new resource from
  \<^verbatim>\<open>current.extensions.map(...)\<close>; the parsed metadata has no such property, so the call of
  \<^verbatim>\<open>map\<close> on \<^verbatim>\<open>undefined\<close> raises a TypeError before \<^verbatim>\<open>fhir.update\<close> is reached.
  No path returns normally.
\<close>

definition updateKeyMetadata :: "kms \<Rightarrow> string \<Rightarrow> updates \<Rightarrow> error + kms" where
  "updateKeyMetadata st k u =
     (case getKeyMetadata st k of
        Inl err \<Rightarrow> Inl err
      | Inr None \<Rightarrow> Inl KeyNotFound
      | Inr (Some current) \<Rightarrow> Inl (undefinedProperty ''map''))"

subsection \<open>Key lifecycle\<close>

text \<open>\<^verbatim>\<open>s.split('/')\<close>.\<close>

fun splitSlash :: "string \<Rightarrow> string list" where
  "splitSlash [] = [[]]"
| "splitSlash (c # cs) =
     (if c = CHR ''/'' then [] # splitSlash cs
      else (case splitSlash cs of [] \<Rightarrow> [[c]] | w # ws \<Rightarrow> (c # w) # ws))"

definition nth_opt :: "'a list \<Rightarrow> nat \<Rightarrow> 'a option" where
  "nth_opt xs i = (if i < length xs then Some (xs ! i) else None)"

definition orDefault :: "'a option \<Rightarrow> 'a \<Rightarrow> 'a" where
  "orDefault v d = (case v of None \<Rightarrow> d | Some x \<Rightarrow> x)"

text \<open>
  \<^verbatim>\<open>generateKey\<close>, in the order of the source: key material, the anchor, the cache
  (five minutes), the audit log, the Device. An exception of a collaborator leaves what was
  done before it.
\<close>

definition generateKey :: "kms_env \<Rightarrow> kms \<Rightarrow> key_params \<Rightarrow> (error + generated) \<times> kms" where
  "generateKey env st params =
     (let kt = orDefault (p_keyType params) ''data-encryption'';
          ownerType = orDefault (p_ownerType params) ''Patient'';
          keySize = orDefault (p_keySize params) 256;
          pol = orDefault (p_rotationPolicy params) ''default'';
          ownerId = (case p_ownerId params of None \<Rightarrow> None | Some i \<Rightarrow> if i = [] then None else Some i)
      in
      case generateKeyMaterial env keySize
             (ownerType @ ''/'' @ orDefault ownerId ''system'' @ ''/'' @ kt) of
        Inl msg \<Rightarrow> (Inl (External msg), st)
      | Inr material \<Rightarrow>
          (let keyMeta = \<lparr>deviceId = [], keyId = randomUUID env, keyType = kt,
                          owner = map_option (\<lambda>i. ownerType @ ''/'' @ i) ownerId,
                          publicKey = km_publicKey material,
                          quantumFingerprint = Some (km_quantumFingerprint material),
                          rotationPolicy = getRotationPolicy (Some pol) (Some kt),
                          securityTags = getSecurityTags kt,
                          status = ''active''\<rparr>
           in
           case submitKeyGeneration env of
             Inl msg \<Rightarrow> (Inl (External msg), st)
           | Inr tx \<Rightarrow>
               (let st1 = st\<lparr>keyCache := (keyCache st)(keyId keyMeta \<mapsto>
                              \<lparr>privateKey = km_privateKey material,
                               expiresAt = kmsNow env + 5 * 60 * 1000\<rparr>)\<rparr>
                in
                case auditLog env of
                  Inl msg \<Rightarrow> (Inl (External msg), st1)
                | Inr _ \<Rightarrow>
                    (case storeKeyMetadata env st1 keyMeta of
                       (d, st2) \<Rightarrow>
                         (Inr \<lparr>g_keyId = keyId keyMeta, g_publicKey = publicKey keyMeta,
                               g_meta = d\<rparr>, st2)))))"

text \<open>
  The parameters that \<^verbatim>\<open>rotateKey\<close> passes to \<^verbatim>\<open>generateKey\<close>, and the update it
  requests for the old key.
\<close>

definition rotationParams :: "key_meta \<Rightarrow> key_params" where
  "rotationParams oldKey =
     \<lparr>p_keyType = Some (keyType oldKey),
      p_ownerId = (case owner oldKey of None \<Rightarrow> None | Some r \<Rightarrow> nth_opt (splitSlash r) 1),
      p_ownerType = (case owner oldKey of None \<Rightarrow> None | Some r \<Rightarrow> nth_opt (splitSlash r) 0),
      p_keySize = Some (length (publicKey oldKey) * 8),
      p_rotationPolicy = name (rotationPolicy oldKey)\<rparr>"

definition rotationUpdates :: "kms_env \<Rightarrow> generated \<Rightarrow> updates" where
  "rotationUpdates env newKey =
     \<lparr>u_status = ''retired'', u_at = kmsNow env,
      u_replacedBy = Some (''Key/'' @ g_keyId newKey), u_revocationReason = None\<rparr>"

definition rotateKey :: "kms_env \<Rightarrow> kms \<Rightarrow> string \<Rightarrow> (error + generated) \<times> kms" where
  "rotateKey env st k =
     (case getKeyMetadata st k of
        Inl err \<Rightarrow> (Inl err, st)
      | Inr None \<Rightarrow> (Inl KeyNotFound, st)
      | Inr (Some oldKey) \<Rightarrow>
          (case generateKey env st (rotationParams oldKey) of
             (Inl err, st1) \<Rightarrow> (Inl err, st1)
           | (Inr newKey, st1) \<Rightarrow>
               (case updateKeyMetadata st1 k (rotationUpdates env newKey) of
                  Inl err \<Rightarrow> (Inl err, st1)
                | Inr st2 \<Rightarrow>
                    (case createProvenance env of
                       Inl msg \<Rightarrow> (Inl (External msg), st2)
                     | Inr _ \<Rightarrow> (Inr newKey, st2)))))"

text \<open>
  \<^verbatim>\<open>revokeKey\<close>: the status update, the anchor's revocation list, the eviction from the
  cache, the audit entry (which reads \<^verbatim>\<open>keyMeta.owner\<close>), in this order.
\<close>

definition revokeKey :: "kms_env \<Rightarrow> kms \<Rightarrow> string \<Rightarrow> string \<Rightarrow> (error + bool) \<times> kms" where
  "revokeKey env st k reason =
     (case getKeyMetadata st k of
        Inl err \<Rightarrow> (Inl err, st)
      | Inr keyMeta \<Rightarrow>
          (case updateKeyMetadata st k
                  \<lparr>u_status = ''revoked'', u_at = kmsNow env, u_replacedBy = None,
                   u_revocationReason = Some reason\<rparr> of
             Inl err \<Rightarrow> (Inl err, st)
           | Inr st1 \<Rightarrow>
               (case blockchainRevokeKey env of
                  Inl msg \<Rightarrow> (Inl (External msg), st1)
                | Inr _ \<Rightarrow>
                    (let st2 = st1\<lparr>keyCache := (keyCache st1)(k := None)\<rparr> in
                     case keyMeta of
                       None \<Rightarrow> (Inl (undefinedProperty ''owner''), st2)
                     | Some m \<Rightarrow>
                         (case auditLog env of
                            Inl msg \<Rightarrow> (Inl (External msg), st2)
                          | Inr _ \<Rightarrow> (Inr True, st2))))))"

text \<open>
  \<^verbatim>\<open>getPrivateKey\<close>, after the cache: the metadata are read, a revoked or retired key is
  refused, the vault hands out the private key, and the key is cached for three minutes.
\<close>

definition retrieveFromVault :: "kms_env \<Rightarrow> kms \<Rightarrow> string \<Rightarrow> (error + string) \<times> kms" where
  "retrieveFromVault env st k =
     (case getKeyMetadata st k of
        Inl err \<Rightarrow> (Inl err, st)
      | Inr None \<Rightarrow> (Inl KeyNotFound, st)
      | Inr (Some keyMeta) \<Rightarrow>
          if status keyMeta = ''revoked'' \<or> status keyMeta = ''retired''
          then (Inl (CannotUse (status keyMeta)), st)
          else
            (case retrievePrivateKey env k (quantumFingerprint keyMeta) (mfaToken env) of
               Inl msg \<Rightarrow> (Inl (External msg), st)
             | Inr pk \<Rightarrow>
                 (Inr pk, st\<lparr>keyCache := (keyCache st)(k \<mapsto>
                            \<lparr>privateKey = pk, expiresAt = kmsNow env + 3 * 60 * 1000\<rparr>)\<rparr>)))"

text \<open>
  \<^verbatim>\<open>getPrivateKey\<close>: a cache entry that has not expired is returned at once; an expired
  one is deleted before the vault is asked.
\<close>

definition getPrivateKey :: "kms_env \<Rightarrow> kms \<Rightarrow> string \<Rightarrow> (error + string) \<times> kms" where
  "getPrivateKey env st k =
     (case keyCache st k of
        Some cached \<Rightarrow>
          if kmsNow env < expiresAt cached then (Inr (privateKey cached), st)
          else retrieveFromVault env (st\<lparr>keyCache := (keyCache st)(k := None)\<rparr>) k
      | None \<Rightarrow> retrieveFromVault env st k)"

subsection \<open>Notions used to state the properties of the key service\<close>




text \<open>
  The collaborators of \<^verbatim>\<open>generateKey\<close> answer: the vault gives key material for every
  request, the anchor records the key, the audit log accepts the entry.
\<close>

definition collaboratorsAnswer :: "kms_env \<Rightarrow> bool" where
  "collaboratorsAnswer env =
     ((\<forall>n c. \<exists>material. generateKeyMaterial env n c = Inr material) \<and>
      (\<exists>tx. submitKeyGeneration env = Inr tx) \<and> auditLog env = Inr ())"

section \<open>Encryption service (AesService, aesService.js beside keyManagement.js)\<close>

subsection \<open>Data model\<close>

record key_info =
  keySize :: nat
  ki_keyType :: string
  ownerId :: "string option"
  quantumSalt :: string
  createdAt :: int
  lastUsed :: "int option"
  rotationSchedule :: string
  ki_status :: "string option"

record aes =
  keyRegistry :: "string \<rightharpoonup> key_info"

text \<open>
  The options of \<^verbatim>\<open>encrypt\<close> and \<^verbatim>\<open>decrypt\<close>: the chunk size in KiB (64 when not
  given) and the context data. The encoding of the output is not modelled: keys,
  ciphertexts, tags and initialization vectors are byte strings, one character a byte.
\<close>

record options =
  chunkSize :: "nat option"
  contextData :: "json option"

record chunk_info =
  index :: nat
  total :: nat

record encrypted_chunk =
  data :: string
  authTag :: string
  iv :: string
  chunkInfo :: chunk_info

text \<open>The result of \<^verbatim>\<open>encrypt\<close>: one chunk as it is, several as an array.\<close>

datatype envelope = Single encrypted_chunk | Many "encrypted_chunk list"

definition chunksOf :: "envelope \<Rightarrow> encrypted_chunk list" where
  "chunksOf encryptedData = (case encryptedData of Single c \<Rightarrow> [c] | Many cs \<Rightarrow> cs)"

text \<open>
  The collaborators: key derivation, the random initialization vector of
  \<^verbatim>\<open>_prepareKeyAndIV\<close>, the audit log, the clock, and AES-256-GCM of the runtime under a
  key of 32 bytes (\<^verbatim>\<open>createCipheriv\<close> and \<^verbatim>\<open>createDecipheriv\<close> raise for a key of
  another length; the operations below make this check themselves). Encryption gives the
  ciphertext and the tag. Decryption gives the plaintext, or as \<open>Inl\<close> the message of the
  exception that \<^verbatim>\<open>createDecipheriv\<close>, \<^verbatim>\<open>setAuthTag\<close> or \<^verbatim>\<open>final\<close> raises: for the
  initialization vector, for the length of the tag, or because the data cannot be
  authenticated. The associated data are the chunk index and the context data.
\<close>

record aes_env =
  deriveKey :: "nat \<Rightarrow> string \<Rightarrow> string \<Rightarrow> string + string"
  randomBytes12 :: string
  gcmEncrypt :: "string \<Rightarrow> string \<Rightarrow> (nat \<times> json) option \<Rightarrow> string \<Rightarrow> string \<times> string"
  gcmDecrypt :: "string \<Rightarrow> string \<Rightarrow> string \<Rightarrow> (nat \<times> json) option \<Rightarrow> string \<Rightarrow> string + string"
  aesAuditLog :: "string + unit"
  aesNow :: int

subsection \<open>Operations\<close>

definition keyContext :: "key_info \<Rightarrow> string" where
  "keyContext ki =
     ''aes-'' @ ki_keyType ki @ ''-'' @
       (case ownerId ki of None \<Rightarrow> ''system'' | Some i \<Rightarrow> if i = [] then ''system'' else i)"

definition prepareKeyAndIV :: "aes_env \<Rightarrow> aes \<Rightarrow> string \<Rightarrow> (error + string \<times> string) \<times> aes" where
  "prepareKeyAndIV env st k =
     (case keyRegistry st k of
        None \<Rightarrow> (Inl InvalidKeyId, st)
      | Some keyInfo \<Rightarrow>
          (case deriveKey env (keySize keyInfo) (quantumSalt keyInfo) (keyContext keyInfo) of
             Inl msg \<Rightarrow> (Inl (External msg), st)
           | Inr key \<Rightarrow>
               (Inr (key, randomBytes12 env),
                st\<lparr>keyRegistry := (keyRegistry st)(k \<mapsto> keyInfo\<lparr>lastUsed := Some (aesNow env)\<rparr>)\<rparr>)))"

text \<open>
  \<^verbatim>\<open>_chunkData\<close>: the loop \<^verbatim>\<open>for (let i = 0; i < data.length; i += chunkSize)\<close>. With
  a chunk size of zero and data that are not empty it does not end: the value is \<open>None\<close>.
\<close>

partial_function (option) chunkLoop :: "string \<Rightarrow> nat \<Rightarrow> nat \<Rightarrow> string list \<Rightarrow> string list option" where
  "chunkLoop d n i chunks =
     (if i < length d
      then chunkLoop d n (i + n) (chunks @ [take n (drop i d)])
      else Some chunks)"

definition chunkData :: "string \<Rightarrow> nat \<Rightarrow> string list option" where
  "chunkData d n = chunkLoop d n 0 []"

definition aad :: "options \<Rightarrow> nat \<Rightarrow> (nat \<times> json) option" where
  "aad opts i = (case contextData opts of
                   None \<Rightarrow> None
                 | Some c \<Rightarrow> if truthy c then Some (i, c) else None)"

text \<open>
  The loop of \<^verbatim>\<open>encrypt\<close> over the chunks. \<^verbatim>\<open>createCipheriv\<close> raises a RangeError
  unless the key has 32 bytes. The initialization vector comes from
  \<^verbatim>\<open>const { key, iv } = ...\<close>, so the assignment \<^verbatim>\<open>iv = crypto.randomBytes(12)\<close> that
  ends the first pass raises a TypeError, after the first chunk has been encrypted and
  pushed.
\<close>

fun encryptChunks ::
  "aes_env \<Rightarrow> string \<Rightarrow> string \<Rightarrow> options \<Rightarrow> nat \<Rightarrow> nat \<Rightarrow> string list \<Rightarrow> encrypted_chunk list
     \<Rightarrow> error + encrypted_chunk list" where
  "encryptChunks env key v opts n i [] encryptedChunks = Inr encryptedChunks"
| "encryptChunks env key v opts n i (chunk # rest) encryptedChunks =
     (if length key \<noteq> 32 then Inl (RangeError ''Invalid key length'')
      else
        (case gcmEncrypt env key v (aad opts i) chunk of
           (encrypted, t) \<Rightarrow>
             (let pushed = encryptedChunks @
                    [\<lparr>data = encrypted, authTag = t, iv = v, chunkInfo = \<lparr>index = i, total = n\<rparr>\<rparr>]
              in Inl (TypeError ''Assignment to constant variable.''))))"

text \<open>\<^verbatim>\<open>encrypt\<close>; \<open>None\<close> when the chunking loop does not end.\<close>

definition encrypt ::
  "aes_env \<Rightarrow> aes \<Rightarrow> string \<Rightarrow> string \<Rightarrow> options \<Rightarrow> ((error + envelope) \<times> aes) option" where
  "encrypt env st d k opts =
     (case prepareKeyAndIV env st k of
        (Inl err, st1) \<Rightarrow> Some (Inl err, st1)
      | (Inr (key, v), st1) \<Rightarrow>
          (case chunkData d (orDefault (chunkSize opts) 64 * 1024) of
             None \<Rightarrow> None
           | Some chunks \<Rightarrow>
               (case encryptChunks env key v opts (length chunks) 0 chunks [] of
                  Inl err \<Rightarrow> Some (Inl err, st1)
                | Inr encryptedChunks \<Rightarrow>
                    (case aesAuditLog env of
                       Inl msg \<Rightarrow> Some (Inl (External msg), st1)
                     | Inr _ \<Rightarrow>
                         Some (Inr (case (chunks, encryptedChunks) of
                                      ([_], c # _) \<Rightarrow> Single c
                                    | _ \<Rightarrow> Many encryptedChunks), st1)))))"

text \<open>
  The loop of \<^verbatim>\<open>decrypt\<close>: an exception of the cipher for one chunk ends the call, and
  nothing decrypted so far is returned. The exception is not caught and not wrapped.
\<close>

fun decryptChunks :: "aes_env \<Rightarrow> string \<Rightarrow> options \<Rightarrow> encrypted_chunk list \<Rightarrow> string \<Rightarrow> error + string" where
  "decryptChunks env key opts [] decrypted = Inr decrypted"
| "decryptChunks env key opts (chunk # rest) decrypted =
     (if length key \<noteq> 32 then Inl (RangeError ''Invalid key length'')
      else
        (case gcmDecrypt env key (iv chunk) (authTag chunk) (aad opts (index (chunkInfo chunk)))
                (data chunk) of
           Inl msg \<Rightarrow> Inl (External msg)
         | Inr plain \<Rightarrow> decryptChunks env key opts rest (decrypted @ plain)))"

definition decrypt ::
  "aes_env \<Rightarrow> aes \<Rightarrow> envelope \<Rightarrow> string \<Rightarrow> options \<Rightarrow> (error + string) \<times> aes" where
  "decrypt env st encryptedData k opts =
     (case prepareKeyAndIV env st k of
        (Inl err, st1) \<Rightarrow> (Inl err, st1)
      | (Inr (key, v), st1) \<Rightarrow>
          (case decryptChunks env key opts (chunksOf encryptedData) [] of
             Inl err \<Rightarrow> (Inl err, st1)
           | Inr decrypted \<Rightarrow>
               (case aesAuditLog env of
                  Inl msg \<Rightarrow> (Inl (External msg), st1)
                | Inr _ \<Rightarrow> (Inr decrypted, st1))))"

subsection \<open>Notions used to state the properties of the encryption service\<close>

text \<open>An envelope with its chunk number \<open>j\<close> replaced.\<close>

definition withChunk :: "envelope \<Rightarrow> nat \<Rightarrow> encrypted_chunk \<Rightarrow> envelope" where
  "withChunk e j c = (case e of Single x \<Rightarrow> Single c | Many cs \<Rightarrow> Many (cs[j := c]))"

text \<open>One bit of a byte, and of a byte string, inverted.\<close>

fun flipChar :: "nat \<Rightarrow> char \<Rightarrow> char" where
  "flipChar i (Char b0 b1 b2 b3 b4 b5 b6 b7) =
     (let bs = [b0, b1, b2, b3, b4, b5, b6, b7]; cs = bs[i := \<not> bs ! i]
      in Char (cs ! 0) (cs ! 1) (cs ! 2) (cs ! 3) (cs ! 4) (cs ! 5) (cs ! 6) (cs ! 7))"

definition flipBit :: "nat \<Rightarrow> string \<Rightarrow> string" where
  "flipBit n s = s[n div 8 := flipChar (n mod 8) (s ! (n div 8))]"

text \<open>The message of the exception with which \<^verbatim>\<open>final\<close> rejects data that do not
  match their tag.\<close>

definition authenticationFailure :: string where
  "authenticationFailure = ''Unsupported state or unable to authenticate data''"

text \<open>
  What the documentation of the cipher promises for a key of 32 bytes: a ciphertext with
  its tag decrypts, under the same initialization vector and associated data, to the
  plaintext it was made from, and is rejected by \<^verbatim>\<open>final\<close> once a bit of the ciphertext
  or of the tag has been inverted.
\<close>

definition authenticatedCipher :: "aes_env \<Rightarrow> bool" where
  "authenticatedCipher env =
     (\<forall>key v a plain c t.
        length key = 32 \<and> gcmEncrypt env key v a plain = (c, t) \<longrightarrow>
          gcmDecrypt env key v t a c = Inr plain \<and>
          (\<forall>n < 8 * length c. gcmDecrypt env key v t a (flipBit n c) = Inl authenticationFailure) \<and>
          (\<forall>n < 8 * length t. gcmDecrypt env key v (flipBit n t) a c = Inl authenticationFailure))"

text \<open>A chunk as the loop of \<^verbatim>\<open>encrypt\<close> pushes it: ciphertext and tag come from the
  cipher, under the chunk's initialization vector and index.\<close>

definition sealed :: "aes_env \<Rightarrow> string \<Rightarrow> options \<Rightarrow> encrypted_chunk \<Rightarrow> bool" where
  "sealed env key opts c =
     (\<exists>plain. gcmEncrypt env key (iv c) (aad opts (index (chunkInfo c))) plain = (data c, authTag c))"

section \<open>Encryption service of the backend (AesService, backend/aesService.js)\<close>

text \<open>
  This class encrypts with \<^verbatim>\<open>aes-256-cbc\<close>. The mode is written out below as the cipher's
  documentation defines it (cipher block chaining with PKCS#7 padding); AES itself stays a
  parameter: under each key of 32 bytes a permutation of the blocks of 128 bits, with its
  inverse.
\<close>

type_synonym block = "128 word"

typedef blockCipher =
  "{(e :: block \<Rightarrow> block, d :: block \<Rightarrow> block). (\<forall>x. d (e x) = x) \<and> (\<forall>y. e (d y) = y)}"
  by (rule exI[of _ "(id, id)"]) simp

definition encryptBlock :: "blockCipher \<Rightarrow> block \<Rightarrow> block" where
  "encryptBlock c = fst (Rep_blockCipher c)"

definition decryptBlock :: "blockCipher \<Rightarrow> block \<Rightarrow> block" where
  "decryptBlock c = snd (Rep_blockCipher c)"

text \<open>The collaborators: AES-256 and \<^verbatim>\<open>crypto.randomBytes(16)\<close>.\<close>

record cbc_env =
  aes256 :: "string \<Rightarrow> blockCipher"
  randomBytes16 :: block

text \<open>Sixteen bytes as a block, the first byte foremost, and back.\<close>

definition blockOf :: "string \<Rightarrow> block" where
  "blockOf bs = foldl (\<lambda>acc c. push_bit 8 acc OR of_nat (of_char c)) 0 bs"

definition bytesOf :: "block \<Rightarrow> string" where
  "bytesOf w = map (\<lambda>i. char_of (unat (take_bit 8 (drop_bit (8 * (15 - i)) w)))) [0..<16]"

fun blocksOf :: "string \<Rightarrow> block list" where
  "blocksOf bs = (if bs = [] then [] else blockOf (take 16 bs) # blocksOf (drop 16 bs))"

declare blocksOf.simps [simp del]

text \<open>The padding that \<^verbatim>\<open>final\<close> appends: between 1 and 16 bytes, each the number of
  bytes appended.\<close>

definition pkcs7 :: "string \<Rightarrow> string" where
  "pkcs7 bs = (let n = 16 - length bs mod 16 in bs @ replicate n (char_of n))"

fun cbcEncrypt :: "blockCipher \<Rightarrow> block \<Rightarrow> block list \<Rightarrow> block list" where
  "cbcEncrypt c prev [] = []"
| "cbcEncrypt c prev (p # ps) =
     (let x = encryptBlock c (p XOR prev) in x # cbcEncrypt c x ps)"

fun cbcDecrypt :: "blockCipher \<Rightarrow> block \<Rightarrow> block list \<Rightarrow> block list" where
  "cbcDecrypt c prev [] = []"
| "cbcDecrypt c prev (x # xs) = (decryptBlock c x XOR prev) # cbcDecrypt c x xs"

text \<open>
  The end of decryption: \<^verbatim>\<open>final\<close> raises when there is no complete last block or when
  the last block does not end in a padding, and removes the padding otherwise. No tag is
  checked: the mode has none.
\<close>

definition unpad :: "string \<Rightarrow> error + string" where
  "unpad bs =
     (if bs = [] then Inl (External ''wrong final block length'')
      else
        (let n = of_char (last bs) in
         if n = 0 \<or> 16 < n \<or> list_ex (\<lambda>b. b \<noteq> last bs) (drop (length bs - n) bs)
         then Inl (External ''bad decrypt'')
         else Inr (take (length bs - n) bs)))"

text \<open>
  \<^verbatim>\<open>encrypt(text, key)\<close> and \<^verbatim>\<open>decrypt(encryptedData, key, iv)\<close>. The text is a string
  of bytes (its UTF-8 encoding), the key the bytes that its hexadecimal text stands for;
  the ciphertext and the initialization vector are kept as whole blocks (their hexadecimal
  text, and a ciphertext that ends inside a block, are not modelled).
\<close>

record encrypted =
  cbc_iv :: block
  encryptedData :: "block list"

definition encrypt_cbc :: "cbc_env \<Rightarrow> string \<Rightarrow> string \<Rightarrow> error + encrypted" where
  "encrypt_cbc env plaintext key =
     (if length key \<noteq> 32 then Inl (RangeError ''Invalid key length'')
      else Inr \<lparr>cbc_iv = randomBytes16 env,
                encryptedData = cbcEncrypt (aes256 env key) (randomBytes16 env)
                                  (blocksOf (pkcs7 plaintext))\<rparr>)"

definition decrypt_cbc :: "cbc_env \<Rightarrow> block list \<Rightarrow> string \<Rightarrow> block \<Rightarrow> error + string" where
  "decrypt_cbc env ciphertext key v =
     (if length key \<noteq> 32 then Inl (RangeError ''Invalid key length'')
      else unpad (concat (map bytesOf (cbcDecrypt (aes256 env key) v ciphertext))))"

section \<open>Example inputs\<close>

text \<open>
  Concrete surroundings and states at which the properties below are evaluated. The hash
  and string primitives of the runtime stay arbitrary (\<open>H\<close>, \<open>S\<close>, \<open>D\<close>). In
  \<open>ledgerEnv\<close> the anchor cannot be reached when a batch is submitted and confirms nothing
  when asked to verify. Its database reads a uuid in the canonical form (groups of 8, 4, 4,
  4 and 12 hexadecimal digits in lower case; the other spellings that PostgreSQL reads do
  not occur below), keeps a JSONB object with its keys sorted by length and then by
  bytes, and rejects a string that is longer than its column: 255 characters for
  \<^verbatim>\<open>STRING\<close>, 45 for the address, 64 for the hash.
\<close>

definition canonicalUuid :: "string \<Rightarrow> bool" where
  "canonicalUuid s =
     list_all2 (\<lambda>p c. if p = CHR ''-'' then c = CHR ''-'' else c \<in> set ''0123456789abcdef'')
       ''xxxxxxxx-xxxx-xxxx-xxxx-xxxxxxxxxxxx'' s"

fun jsonb :: "json \<Rightarrow> json" where
  "jsonb (JObj kvs) =
     JObj (sort_key (\<lambda>kv. (length (fst kv), fst kv)) (map (\<lambda>kv. (fst kv, jsonb (snd kv))) kvs))"
| "jsonb (JArr vs) = JArr (map jsonb vs)"
| "jsonb v = v"

definition fits :: "nat \<Rightarrow> string option \<Rightarrow> bool" where
  "fits n v = (case v of None \<Rightarrow> True | Some s \<Rightarrow> length s \<le> n)"

definition pgColumns :: "log_entry \<Rightarrow> log_entry option" where
  "pgColumns v =
     (if length (userId v) \<le> 255 \<and> fits 255 (resourceType v) \<and> fits 255 (resourceId v) \<and>
         fits 45 (ipAddress v) \<and> fits 64 (dataHash v)
      then Some (v\<lparr>queryParams := map_option jsonb (queryParams v)\<rparr>)
      else None)"

definition ledgerEnv :: "(string \<Rightarrow> string) \<Rightarrow> (json \<Rightarrow> string) \<Rightarrow> (int \<Rightarrow> string) \<Rightarrow> ledger_env" where
  "ledgerEnv H S D =
     \<lparr>sha256 = H, stringify = S, dateString = D, blockchainAudit = True,
      hospitalId = Some ''hospital-1'',
      submitAuditBatch = (\<lambda>h r ids. Inl ''anchor unreachable''),
      verifyTransaction = (\<lambda>tx h. Inr False),
      uuidv4 = ''3f2b8c1e-7a4d-4e6f-9b0a-5c1d2e3f4a5b'',
      currentTimestamp = 1700000000000, dateNow = 1700000000005,
      uuidInput = (\<lambda>s. if canonicalUuid s then Some s else None),
      asColumns = pgColumns\<rparr>"

definition entryA :: log_entry where
  "entryA = \<lparr>id' = ''c9a1d7e2-0b3f-4c5a-8d6e-1f2a3b4c5d6e'', timestamp = 1699999000000,
     userId = ''dr.smith'', action = READ, resourceType = Some ''Patient'',
     resourceId = Some ''42'', ipAddress = None, userAgent = None, queryParams = None,
     dataHash = None, blockchainTxId = None, verified = False\<rparr>"

definition entryB :: log_entry where
  "entryB = \<lparr>id' = ''1d4e9f3a-6b2c-4a7d-b8e1-0c9d8e7f6a5b'', timestamp = 1699998000000,
     userId = ''dr.jones'', action = WRITE, resourceType = Some ''Observation'',
     resourceId = Some ''7'', ipAddress = None, userAgent = None, queryParams = None,
     dataHash = None, blockchainTxId = Some ''0x5e1f'', verified = True\<rparr>"

definition ledgerAB :: ledger where
  "ledgerAB = \<lparr>rows = [entryB, entryA], clients = []\<rparr>"

definition emptyLedger :: ledger where
  "emptyLedger = \<lparr>rows = [], clients = []\<rparr>"

definition plainMetadata :: metadata where
  "plainMetadata = \<lparr>md_resourceType = Some ''Patient'', md_resourceId = Some ''42'',
     md_ip = Some ''10.0.0.7'', md_userAgent = None, md_query = None, md_data = None\<rparr>"

definition twoCalls :: "(string \<Rightarrow> string) \<Rightarrow> (json \<Rightarrow> string) \<Rightarrow> (int \<Rightarrow> string)
    \<Rightarrow> (ledger_env \<times> string \<times> action \<times> metadata) list" where
  "twoCalls H S D =
     [((ledgerEnv H S D)\<lparr>uuidv4 := ''f47ac10b-58cc-4372-a567-0e02b2c3d479'',
                          currentTimestamp := 1700000000000, dateNow := 1700000000004\<rparr>,
       ''dr.smith'', READ, plainMetadata),
      ((ledgerEnv H S D)\<lparr>uuidv4 := ''0a1b2c3d-4e5f-4a6b-8c7d-9e0f1a2b3c4d'',
                          currentTimestamp := 1700000001000, dateNow := 1700000001004\<rparr>,
       ''dr.smith'', READ, plainMetadata)]"

definition phiMetadata :: metadata where
  "phiMetadata = \<lparr>md_resourceType = Some ''Patient'', md_resourceId = Some ''MRN-0012345'',
     md_ip = Some ''10.0.0.7'', md_userAgent = None,
     md_query = Some (JObj [(''dateOfBirth'', JStr ''1980-02-29''), (''ssn'', JStr ''123-45-6789'')]),
     md_data = None\<rparr>"

text \<open>An address that does not fit its column.\<close>

definition longAddress :: metadata where
  "longAddress = plainMetadata\<lparr>md_ip := Some (replicate 46 CHR ''f'')\<rparr>"





text \<open>
  The key service: a vault, an anchor and an audit log that answer; \<open>kmsWithKey\<close> is the
  state after \<^verbatim>\<open>generateKey\<close> for a patient's data-encryption key (\<open>keyOne\<close>), and
  \<open>keyOneMeta\<close> what \<^verbatim>\<open>_getKeyMetadata\<close> reads back for it. \<open>rotationEnv\<close> is thirty
  seconds later, with the next identifiers (\<open>keyTwo\<close>). The server has no Device for
  \<open>keyNine\<close>.
\<close>

definition keyOne :: string where
  "keyOne = ''6fa459ea-ee8a-4ca4-894e-db77e160355e''"

definition keyTwo :: string where
  "keyTwo = ''16fd2706-8baf-433b-82eb-8c7fada847da''"


definition kmsEnv :: kms_env where
  "kmsEnv =
     \<lparr>generateKeyMaterial = (\<lambda>len ctx. Inr \<lparr>km_publicKey = ''PUBLIC-KEY-BYTES'',
          km_quantumFingerprint = ''qf-71c3'', km_privateKey = ''PRIVATE-KEY-1''\<rparr>),
      retrievePrivateKey = (\<lambda>k fp mfa. Inr ''PRIVATE-KEY-FROM-VAULT''),
      randomUUID = keyOne,
      mfaToken = ''9d2c5e1f0a3b4c6d7e8f9a0b1c2d3e4f'',
      submitKeyGeneration = Inr ''0x77aa'',
      blockchainRevokeKey = Inr (),
      auditLog = Inr (),
      createdId = ''device-1'',
      createProvenance = Inr (),
      kmsNow = 1700000000000\<rparr>"

definition emptyKms :: kms where
  "emptyKms = \<lparr>devices = [], keyCache = Map.empty\<rparr>"

definition patientKey :: key_params where
  "patientKey = \<lparr>p_keyType = Some ''data-encryption'', p_ownerId = Some ''patient-42'',
     p_ownerType = Some ''Patient'', p_keySize = Some 256, p_rotationPolicy = Some ''default''\<rparr>"

definition kmsWithKey :: kms where
  "kmsWithKey = snd (generateKey kmsEnv emptyKms patientKey)"

definition keyOneDevice :: device where
  "keyOneDevice = \<lparr>dev_id = ''device-1'', dev_identifier = keyOne,
     typeCode = ''data-encryption'', dev_owner = Some ''Patient/patient-42'',
     tag = Some [''CONFIDENTIAL''],
     extension = [(keyMetadataUrl,
        [(''quantumFingerprint'', Some ''qf-71c3''), (''rotationPolicy'', Some ''default''),
         (''publicKey'', Some ''PUBLIC-KEY-BYTES'')])]\<rparr>"

definition keyOneMeta :: key_meta where
  "keyOneMeta = \<lparr>deviceId = ''device-1'', keyId = keyOne, keyType = ''data-encryption'',
     owner = Some ''Patient/patient-42'', publicKey = ''PUBLIC-KEY-BYTES'',
     quantumFingerprint = Some ''qf-71c3'',
     rotationPolicy = \<lparr>name = Some ''default'', maxLifetime = Some 90, usageLimit = Some 1000\<rparr>,
     securityTags = Some [''CONFIDENTIAL''], status = ''active''\<rparr>"

definition rotationEnv :: kms_env where
  "rotationEnv = kmsEnv\<lparr>randomUUID := keyTwo, createdId := ''device-2'',
     kmsNow := 1700000030000\<rparr>"

text \<open>
  The encryption service with one registered key, whose derivation gives 32 bytes
  (\<open>shortKeyEnv\<close>: 20 bytes). The cipher of \<open>aesEnv\<close> is a stand-in that notices every
  change: the ciphertext is the plaintext reversed and the tag a copy of the ciphertext.
\<close>

definition aesEnv :: aes_env where
  "aesEnv =
     \<lparr>deriveKey = (\<lambda>len salt ctx. Inr ''DERIVED-KEY-OF-32-BYTES-00000001''),
      randomBytes12 = ''IV-000000001'',
      gcmEncrypt = (\<lambda>key v a plain. (rev plain, rev plain)),
      gcmDecrypt = (\<lambda>key v t a c. if t = c then Inr (rev c) else Inl authenticationFailure),
      aesAuditLog = Inr (),
      aesNow = 1700000000000\<rparr>"

definition shortKeyEnv :: aes_env where
  "shortKeyEnv = aesEnv\<lparr>deriveKey := (\<lambda>len salt ctx. Inr ''DERIVED-KEY-20-BYTES'')\<rparr>"

definition aesKey :: string where
  "aesKey = ''2c1b7e5a-9d4f-4b3a-8e6c-0f1a2b3c4d5e''"

definition aesWithKey :: aes where
  "aesWithKey = \<lparr>keyRegistry = [aesKey \<mapsto>
     \<lparr>keySize = 256, ki_keyType = ''patient-data'', ownerId = Some ''patient-42'',
      quantumSalt = ''SALT'', createdAt = 1699990000000, lastUsed = None,
      rotationSchedule = ''30d'', ki_status = None\<rparr>]\<rparr>"

definition defaultOptions :: options where
  "defaultOptions = \<lparr>chunkSize = None, contextData = None\<rparr>"

text \<open>A chunk of the stand-in cipher, as the loop of \<^verbatim>\<open>encrypt\<close> builds it.\<close>

definition sealedChunk :: encrypted_chunk where
  "sealedChunk = \<lparr>data = ''811:pb-cilotsys'', authTag = ''811:pb-cilotsys'',
     iv = ''IV-000000001'', chunkInfo = \<lparr>index = 0, total = 1\<rparr>\<rparr>"

text \<open>
  The backend's service: any AES (\<open>E\<close>) and any initialization vector (\<open>v\<close>), a key of
  32 bytes, and a text of 24 bytes, which fills one block and half of the next.
\<close>

definition cbcEnv :: "(string \<Rightarrow> blockCipher) \<Rightarrow> block \<Rightarrow> cbc_env" where
  "cbcEnv E v = \<lparr>aes256 = E, randomBytes16 = v\<rparr>"

definition backendKey :: string where
  "backendKey = ''0123456789abcdef0123456789abcdef''"

definition vitals :: string where
  "vitals = ''systolic-bp:118;pulse:64''"

section \<open>Properties of the audit ledger\<close>

subsection \<open>Verification of an entry\<close>

lemma findByPk_missing:
  "(findByPk env st k = Inr None) = (\<exists>u. uuidInput env k = Some u \<and> u \<notin> set (map id' (rows st)))"
  by (auto simp: findByPk_def find_None_iff split: option.splits)

text \<open>
  Claim C9, as the code has it. The id column is a uuid: for a string that the database
  does not read as a uuid, the lookup of \<^verbatim>\<open>verifyEntry\<close> raises the database's error.
  \<^verbatim>\<open>verifyEntry\<close> raises "Entry not found" exactly when the string is read as a uuid
  that no row has. For a row whose \<^verbatim>\<open>blockchainTxId\<close> is null or empty it returns false.
  Otherwise it returns what the anchor's \<^verbatim>\<open>verifyTransaction\<close> answers for the
  transaction id and the recomputed \<^verbatim>\<open>_hashEntry\<close>, and an exception of the anchor is
  propagated as an exception. So an anchor that cannot be reached is never reported as
  false, while false is returned both for an entry that is not anchored and for an
  anchored entry that the anchor does not confirm.
\<close>

theorem verifyEntry_outcomes:
  "(uuidInput env k = None \<longrightarrow>
      verifyEntry env st k = Inl (DatabaseError ''invalid input syntax for type uuid'')) \<and>
   ((verifyEntry env st k = Inl EntryNotFound) =
      (\<exists>u. uuidInput env k = Some u \<and> u \<notin> set (map id' (rows st)))) \<and>
   (\<forall>e. findByPk env st k = Inr (Some e) \<and> unanchored e \<longrightarrow> verifyEntry env st k = Inr False) \<and>
   (\<forall>e tx. findByPk env st k = Inr (Some e) \<and> blockchainTxId e = Some tx \<and> tx \<noteq> [] \<longrightarrow>
      verifyEntry env st k =
        (case verifyTransaction env tx (hashEntry env e) of
           Inl msg \<Rightarrow> Inl (External msg) | Inr ok \<Rightarrow> Inr ok))"
proof (intro conjI allI impI)
  assume "uuidInput env k = None"
  then show "verifyEntry env st k = Inl (DatabaseError ''invalid input syntax for type uuid'')"
    by (simp add: verifyEntry_def findByPk_def)
next
  show "(verifyEntry env st k = Inl EntryNotFound) =
          (\<exists>u. uuidInput env k = Some u \<and> u \<notin> set (map id' (rows st)))"
  proof (cases "findByPk env st k")
    case (Inl err)
    then have "uuidInput env k = None" "err = DatabaseError ''invalid input syntax for type uuid''"
      by (auto simp: findByPk_def split: option.splits)
    with Inl show ?thesis by (simp add: verifyEntry_def)
  next
    case (Inr found)
    show ?thesis
    proof (cases found)
      case None
      with Inr show ?thesis using findByPk_missing[of env st k] by (simp add: verifyEntry_def)
    next
      case (Some e)
      with Inr have "findByPk env st k \<noteq> Inr None" by simp
      then have "\<not> (\<exists>u. uuidInput env k = Some u \<and> u \<notin> set (map id' (rows st)))"
        using findByPk_missing[of env st k] by simp
      with Inr Some show ?thesis
        by (simp add: verifyEntry_def split: option.splits sum.splits)
    qed
  qed
next
  fix e assume "findByPk env st k = Inr (Some e) \<and> unanchored e"
  then show "verifyEntry env st k = Inr False"
    by (auto simp: verifyEntry_def unanchored_def)
next
  fix e tx assume "findByPk env st k = Inr (Some e) \<and> blockchainTxId e = Some tx \<and> tx \<noteq> []"
  then show "verifyEntry env st k =
        (case verifyTransaction env tx (hashEntry env e) of
           Inl msg \<Rightarrow> Inl (External msg) | Inr ok \<Rightarrow> Inr ok)"
    by (simp add: verifyEntry_def)
qed

lemma uuid_entryA: "canonicalUuid (id' entryA)"
  by (simp add: canonicalUuid_def entryA_def)

lemma uuid_entryB: "canonicalUuid (id' entryB)"
  by (simp add: canonicalUuid_def entryB_def)

lemma find_entryB:
  "uuidInput env = (\<lambda>s. if canonicalUuid s then Some s else None) \<Longrightarrow>
     findByPk env ledgerAB (id' entryB) = Inr (Some entryB)"
  using uuid_entryB by (simp add: findByPk_def ledgerAB_def)

lemma find_entryA:
  "uuidInput env = (\<lambda>s. if canonicalUuid s then Some s else None) \<Longrightarrow>
     findByPk env ledgerAB (id' entryA) = Inr (Some entryA)"
  using uuid_entryA by (simp add: findByPk_def ledgerAB_def) (simp add: entryA_def entryB_def)

theorem verifyEntry_outcomes_witness:
  "\<forall>H S D.
     verifyEntry (ledgerEnv H S D) ledgerAB ''entry-17'' =
        Inl (DatabaseError ''invalid input syntax for type uuid'') \<and>
     verifyEntry (ledgerEnv H S D) ledgerAB ''00000000-0000-4000-8000-000000000000'' = Inl EntryNotFound \<and>
     verifyEntry (ledgerEnv H S D) ledgerAB (id' entryA) = Inr False \<and>
     verifyEntry ((ledgerEnv H S D)\<lparr>verifyTransaction := \<lambda>tx h. Inr (tx = ''0x5e1f'' \<and> h = hashEntry (ledgerEnv H S D) entryB)\<rparr>)
        ledgerAB (id' entryB) = Inr True \<and>
     verifyEntry ((ledgerEnv H S D)\<lparr>verifyTransaction := \<lambda>tx h. Inl ''anchor unreachable''\<rparr>)
        ledgerAB (id' entryB) = Inl (External ''anchor unreachable'')"
proof (intro allI conjI)
  fix H S D
  let ?env = "ledgerEnv H S D"
  have inp: "uuidInput ?env = (\<lambda>s. if canonicalUuid s then Some s else None)"
    by (simp add: ledgerEnv_def)
  have "uuidInput ?env ''entry-17'' = None"
    by (simp add: ledgerEnv_def canonicalUuid_def)
  then show "verifyEntry ?env ledgerAB ''entry-17'' =
        Inl (DatabaseError ''invalid input syntax for type uuid'')"
    using verifyEntry_outcomes[of ?env "''entry-17''" ledgerAB] by blast
  have "uuidInput ?env ''00000000-0000-4000-8000-000000000000'' =
          Some ''00000000-0000-4000-8000-000000000000''"
    by (simp add: ledgerEnv_def canonicalUuid_def)
  moreover have "''00000000-0000-4000-8000-000000000000'' \<notin> set (map id' (rows ledgerAB))"
    by (simp add: ledgerAB_def entryA_def entryB_def)
  ultimately show "verifyEntry ?env ledgerAB ''00000000-0000-4000-8000-000000000000'' = Inl EntryNotFound"
    using verifyEntry_outcomes[of ?env "''00000000-0000-4000-8000-000000000000''" ledgerAB] by blast
  have "unanchored entryA" by (simp add: unanchored_def entryA_def)
  then show "verifyEntry ?env ledgerAB (id' entryA) = Inr False"
    using verifyEntry_outcomes[of ?env "id' entryA" ledgerAB] find_entryA[OF inp] by blast
  have tx: "blockchainTxId entryB = Some ''0x5e1f'' \<and> ''0x5e1f'' \<noteq> []"
    by (simp add: entryB_def)
  let ?e1 = "?env\<lparr>verifyTransaction := \<lambda>tx h. Inr (tx = ''0x5e1f'' \<and> h = hashEntry ?env entryB)\<rparr>"
  have inp1: "uuidInput ?e1 = (\<lambda>s. if canonicalUuid s then Some s else None)"
    by (simp add: ledgerEnv_def)
  have "verifyEntry ?e1 ledgerAB (id' entryB) =
        (case verifyTransaction ?e1 ''0x5e1f'' (hashEntry ?e1 entryB) of
           Inl msg \<Rightarrow> Inl (External msg) | Inr ok \<Rightarrow> Inr ok)"
    using verifyEntry_outcomes[of ?e1 "id' entryB" ledgerAB] find_entryB[OF inp1] tx by blast
  then show "verifyEntry ?e1 ledgerAB (id' entryB) = Inr True"
    by (simp add: hashEntry_def)
  let ?e2 = "?env\<lparr>verifyTransaction := \<lambda>tx h. Inl ''anchor unreachable''\<rparr>"
  have inp2: "uuidInput ?e2 = (\<lambda>s. if canonicalUuid s then Some s else None)"
    by (simp add: ledgerEnv_def)
  have "verifyEntry ?e2 ledgerAB (id' entryB) =
        (case verifyTransaction ?e2 ''0x5e1f'' (hashEntry ?e2 entryB) of
           Inl msg \<Rightarrow> Inl (External msg) | Inr ok \<Rightarrow> Inr ok)"
    using verifyEntry_outcomes[of ?e2 "id' entryB" ledgerAB] find_entryB[OF inp2] tx by blast
  then show "verifyEntry ?e2 ledgerAB (id' entryB) = Inl (External ''anchor unreachable'')"
    by simp
qed

text \<open>
  Claim C9 as stated says that the outcomes never conflate "not yet anchored" with "anchor
  integrity failed". Here \<open>entryA\<close> is not anchored, \<open>entryB\<close> is anchored and the anchor
  answers that it does not confirm the hash: both calls return false.
\<close>

theorem verifyEntry_conflates_counterexample:
  "\<forall>H S D.
     unanchored entryA \<and> \<not> unanchored entryB \<and>
     verifyTransaction (ledgerEnv H S D) ''0x5e1f'' (hashEntry (ledgerEnv H S D) entryB) = Inr False \<and>
     verifyEntry (ledgerEnv H S D) ledgerAB (id' entryA) = Inr False \<and>
     verifyEntry (ledgerEnv H S D) ledgerAB (id' entryB) = Inr False"
proof (intro allI conjI)
  fix H S D
  have inp: "uuidInput (ledgerEnv H S D) = (\<lambda>s. if canonicalUuid s then Some s else None)"
    by (simp add: ledgerEnv_def)
  show "unanchored entryA" by (simp add: unanchored_def entryA_def)
  show "\<not> unanchored entryB" by (simp add: unanchored_def entryB_def)
  show "verifyTransaction (ledgerEnv H S D) ''0x5e1f'' (hashEntry (ledgerEnv H S D) entryB) = Inr False"
    by (simp add: ledgerEnv_def)
  show "verifyEntry (ledgerEnv H S D) ledgerAB (id' entryA) = Inr False"
    using find_entryA[OF inp] by (simp add: verifyEntry_def entryA_def)
  show "verifyEntry (ledgerEnv H S D) ledgerAB (id' entryB) = Inr False"
    using find_entryB[OF inp] by (simp add: verifyEntry_def entryB_def ledgerEnv_def)
qed

subsection \<open>What a call of log leaves in the table\<close>

lemma content_markVerified: "map content (rows (markVerified tx ids st)) = map content (rows st)"
  by (simp add: markVerified_def content_def)


lemma content_anchor:
  "map content (rows (snd (anchorToBlockchain env st e))) = map content (rows st)"
  by (simp add: anchorToBlockchain_def Let_def content_markVerified split: sum.splits)



lemma id_withDefaults: "id' (withDefaults env v) = uuidv4 env"
  by (simp add: withDefaults_def)

lemma create_rejected:
  "asColumns env v = None \<Longrightarrow>
     create env st v = (Inl (DatabaseError ''value rejected by its column''), st)"
  by (simp add: create_def)

lemma create_fresh:
  "uuidv4 env \<notin> set (map id' (rows st)) \<Longrightarrow> asColumns env v = Some s \<Longrightarrow>
     create env st v =
       (case anchorToBlockchain env (inserted st (withDefaults env s)) (withDefaults env s) of
          (Inl err, st2) \<Rightarrow> (Inl err, st2)
        | (Inr u, st2) \<Rightarrow> (Inr (withDefaults env s), st2))"
  by (simp add: create_def Let_def inserted_def id_withDefaults split: prod.splits sum.splits)

lemma content_create:
  "map content (rows (snd (create env st v))) =
     map content (rows st) @
       (case asColumns env v of
          None \<Rightarrow> []
        | Some s \<Rightarrow> if uuidv4 env \<in> set (map id' (rows st)) then []
                    else [content (withDefaults env s)])"
proof (cases "asColumns env v")
  case None
  then show ?thesis by (simp add: create_rejected)
next
  case (Some s)
  show ?thesis
  proof (cases "uuidv4 env \<in> set (map id' (rows st))")
    case True
    then show ?thesis using Some by (simp add: create_def Let_def id_withDefaults)
  next
    case False
    let ?e = "withDefaults env s"
    have "snd (create env st v) = snd (anchorToBlockchain env (inserted st ?e) ?e)"
      by (simp add: create_fresh[OF False Some] split: prod.splits sum.splits)
    then show ?thesis using False Some content_anchor[of env "inserted st ?e" ?e]
      by (simp add: inserted_def)
  qed
qed

lemma rows_log: "rows (snd (log env st uid act md)) = rows (snd (create env st (entryValues env uid act md)))"
  by (simp add: log_def split: prod.splits sum.splits)

lemma content_log:
  "map content (rows (snd (log env st uid act md))) =
     map content (rows st) @
       (case asColumns env (entryValues env uid act md) of
          None \<Rightarrow> []
        | Some s \<Rightarrow> if uuidv4 env \<in> set (map id' (rows st)) then []
                    else [content (withDefaults env s)])"
  by (simp only: rows_log content_create)

lemma id_content: "id' (content e) = id' e"
  by (simp add: content_def)

lemma ids_via_content: "map id' xs = map id' (map content xs)"
  by (simp add: id_content)

lemma ids_log:
  "map id' (rows (snd (log env st uid act md))) =
     map id' (rows st) @
       (if asColumns env (entryValues env uid act md) = None \<or> uuidv4 env \<in> set (map id' (rows st))
        then [] else [uuidv4 env])"
proof -
  have "map id' (rows (snd (log env st uid act md))) = map id' (map content (rows (snd (log env st uid act md))))"
    by (rule ids_via_content)
  also have "\<dots> = map id' (map content (rows st) @
       (case asColumns env (entryValues env uid act md) of
          None \<Rightarrow> []
        | Some s \<Rightarrow> if uuidv4 env \<in> set (map id' (rows st)) then []
                    else [content (withDefaults env s)]))"
    by (simp only: content_log)
  also have "\<dots> = map id' (rows st) @
       (if asColumns env (entryValues env uid act md) = None \<or> uuidv4 env \<in> set (map id' (rows st))
        then [] else [uuidv4 env])"
    by (simp add: id_content id_withDefaults split: option.splits)
  finally show ?thesis .
qed

lemma distinct_log:
  "distinct (map id' (rows st)) \<Longrightarrow> distinct (map id' (rows (snd (log env st uid act md))))"
  by (simp add: ids_log)

lemma fields_content:
  "content r = content e \<Longrightarrow>
     id' r = id' e \<and> userId r = userId e \<and> action r = action e \<and>
     resourceType r = resourceType e \<and> resourceId r = resourceId e \<and>
     ipAddress r = ipAddress e \<and> userAgent r = userAgent e \<and>
     queryParams r = queryParams e \<and> dataHash r = dataHash e \<and> timestamp r = timestamp e"
  by (cases r, cases e) (simp add: content_def)

lemma last_row_log:
  assumes "uuidv4 env \<notin> set (map id' (rows st))"
    and "asColumns env (entryValues env uid act md) = Some s"
  shows "rows (snd (log env st uid act md)) \<noteq> [] \<and>
         content (last (rows (snd (log env st uid act md)))) = content (withDefaults env s)"
proof -
  let ?rs = "rows (snd (log env st uid act md))"
  have m: "map content ?rs = map content (rows st) @ [content (withDefaults env s)]"
    using assms content_log[of env st uid act md] by simp
  then have ne: "?rs \<noteq> []" by auto
  have "last (map content ?rs) = content (withDefaults env s)" using m by simp
  then show ?thesis using ne by (simp add: last_map)
qed

lemma columns_plain:
  "pgColumns (entryValues env uid READ plainMetadata) =
     (if length uid \<le> 255 then Some (entryValues env uid READ plainMetadata) else None)"
  by (simp add: pgColumns_def entryValues_def plainMetadata_def fits_def)

lemma columns_phi:
  "pgColumns (entryValues env ''dr.smith'' READ phiMetadata) =
     Some ((entryValues env ''dr.smith'' READ phiMetadata)
            \<lparr>queryParams := Some (JObj [(''ssn'', JStr ''123-45-6789''),
                                        (''dateOfBirth'', JStr ''1980-02-29'')])\<rparr>)"
  by (simp add: pgColumns_def entryValues_def phiMetadata_def fits_def)

lemma columns_long: "pgColumns (entryValues env uid act longAddress) = None"
  by (simp add: pgColumns_def entryValues_def longAddress_def plainMetadata_def fits_def)

subsection \<open>Identifiers\<close>

text \<open>
  Claim C8, as the code has it. The id is a version-4 UUID under a primary key: across every
  sequence of \<^verbatim>\<open>log\<close> calls, whether they return or raise, the ids of the rows stay
  pairwise distinct. They carry no order.
\<close>

theorem log_ids_unique:
  "distinct (map id' (rows st)) \<longrightarrow> distinct (map id' (rows (logAll calls st)))"
proof (induction calls arbitrary: st)
  case Nil
  show ?case by simp
next
  case (Cons c calls)
  obtain env uid act md where c: "c = (env, uid, act, md)" by (cases c) auto
  show ?case using Cons.IH[of "snd (log env st uid act md)"] distinct_log[of st env uid act md]
    by (simp add: c)
qed

lemma ids_twoCalls:
  "map id' (rows (logAll (twoCalls H S D) emptyLedger)) =
     [''f47ac10b-58cc-4372-a567-0e02b2c3d479'', ''0a1b2c3d-4e5f-4a6b-8c7d-9e0f1a2b3c4d'']"
  by (simp add: twoCalls_def ids_log emptyLedger_def ledgerEnv_def columns_plain)

theorem log_ids_unique_witness:
  "\<forall>H S D. distinct (map id' (rows emptyLedger)) \<and>
     distinct (map id' (rows (logAll (twoCalls H S D) emptyLedger)))"
proof (intro allI conjI)
  fix H S D
  show d: "distinct (map id' (rows emptyLedger))" by (simp add: emptyLedger_def)
  show "distinct (map id' (rows (logAll (twoCalls H S D) emptyLedger)))"
    using log_ids_unique[of emptyLedger "twoCalls H S D"] d by blast
qed

text \<open>
  Claim C8 as stated says that the ids increase strictly in the order of creation. Two calls
  in a row, the second a second later, with the UUIDs that the generator happened to give:
  both rows are stored, and the second id is below the first.
\<close>

theorem log_ids_not_increasing_counterexample:
  "\<forall>H S D.
     map id' (rows (logAll (twoCalls H S D) emptyLedger)) =
       [''f47ac10b-58cc-4372-a567-0e02b2c3d479'', ''0a1b2c3d-4e5f-4a6b-8c7d-9e0f1a2b3c4d''] \<and>
     \<not> sorted_wrt (<) (map id' (rows (logAll (twoCalls H S D) emptyLedger)))"
  by (simp add: ids_twoCalls)

subsection \<open>Metadata\<close>

text \<open>
  Claim C5, as the code has it. \<^verbatim>\<open>log\<close> has no masking step: it hands the resource
  type, the resource id, the address, the user agent and the query of the metadata to the
  database as they were passed, whatever their keys and values, and of \<^verbatim>\<open>metadata.data\<close>
  only the SHA-256 hash. When a column rejects its value, \<^verbatim>\<open>log\<close> raises the database's
  error and stores nothing. Otherwise, with a fresh id, the new row holds what the columns
  make of the values passed; so where the columns hold the values as they are, the row
  holds the metadata unmasked.
\<close>

theorem log_persists_metadata_unmasked:
  "(asColumns env (entryValues env uid act md) = None \<longrightarrow>
      log env st uid act md = (Inl (DatabaseError ''value rejected by its column''), st)) \<and>
   (\<forall>s. uuidv4 env \<notin> set (map id' (rows st)) \<and>
         asColumns env (entryValues env uid act md) = Some s \<longrightarrow>
      (\<exists>r \<in> set (rows (snd (log env st uid act md))).
         id' r = uuidv4 env \<and> userId r = userId s \<and> action r = action s \<and>
         resourceType r = resourceType s \<and> resourceId r = resourceId s \<and>
         ipAddress r = ipAddress s \<and> userAgent r = userAgent s \<and>
         queryParams r = queryParams s \<and> dataHash r = dataHash s)) \<and>
   (uuidv4 env \<notin> set (map id' (rows st)) \<and>
    asColumns env (entryValues env uid act md) = Some (entryValues env uid act md) \<longrightarrow>
      (\<exists>r \<in> set (rows (snd (log env st uid act md))).
         id' r = uuidv4 env \<and> userId r = uid \<and> action r = act \<and>
         resourceType r = md_resourceType md \<and> resourceId r = md_resourceId md \<and>
         ipAddress r = md_ip md \<and> userAgent r = md_userAgent md \<and>
         queryParams r = md_query md \<and>
         dataHash r = (case md_data md of
                         None \<Rightarrow> None
                       | Some d \<Rightarrow> if truthy d then Some (hashData env d) else None)))"
proof (intro conjI allI impI)
  assume "asColumns env (entryValues env uid act md) = None"
  then show "log env st uid act md = (Inl (DatabaseError ''value rejected by its column''), st)"
    by (simp add: log_def create_rejected)
next
  fix s
  assume a: "uuidv4 env \<notin> set (map id' (rows st)) \<and>
             asColumns env (entryValues env uid act md) = Some s"
  let ?rs = "rows (snd (log env st uid act md))"
  from last_row_log[of env st uid act md s] a
  have ne: "?rs \<noteq> []" and c: "content (last ?rs) = content (withDefaults env s)" by auto
  have "last ?rs \<in> set ?rs" using ne by simp
  moreover from fields_content[OF c]
  have "id' (last ?rs) = uuidv4 env \<and> userId (last ?rs) = userId s \<and> action (last ?rs) = action s \<and>
        resourceType (last ?rs) = resourceType s \<and> resourceId (last ?rs) = resourceId s \<and>
        ipAddress (last ?rs) = ipAddress s \<and> userAgent (last ?rs) = userAgent s \<and>
        queryParams (last ?rs) = queryParams s \<and> dataHash (last ?rs) = dataHash s"
    by (simp add: withDefaults_def)
  ultimately show "\<exists>r \<in> set ?rs.
         id' r = uuidv4 env \<and> userId r = userId s \<and> action r = action s \<and>
         resourceType r = resourceType s \<and> resourceId r = resourceId s \<and>
         ipAddress r = ipAddress s \<and> userAgent r = userAgent s \<and>
         queryParams r = queryParams s \<and> dataHash r = dataHash s"
    by blast
next
  assume a: "uuidv4 env \<notin> set (map id' (rows st)) \<and>
             asColumns env (entryValues env uid act md) = Some (entryValues env uid act md)"
  let ?rs = "rows (snd (log env st uid act md))"
  from last_row_log[of env st uid act md "entryValues env uid act md"] a
  have ne: "?rs \<noteq> []"
    and c: "content (last ?rs) = content (withDefaults env (entryValues env uid act md))" by auto
  have "last ?rs \<in> set ?rs" using ne by simp
  moreover from fields_content[OF c]
  have "id' (last ?rs) = uuidv4 env \<and> userId (last ?rs) = uid \<and> action (last ?rs) = act \<and>
        resourceType (last ?rs) = md_resourceType md \<and> resourceId (last ?rs) = md_resourceId md \<and>
        ipAddress (last ?rs) = md_ip md \<and> userAgent (last ?rs) = md_userAgent md \<and>
        queryParams (last ?rs) = md_query md \<and>
        dataHash (last ?rs) = (case md_data md of
                        None \<Rightarrow> None
                      | Some d \<Rightarrow> if truthy d then Some (hashData env d) else None)"
    by (simp add: withDefaults_def entryValues_def)
  ultimately show "\<exists>r \<in> set ?rs.
        id' r = uuidv4 env \<and> userId r = uid \<and> action r = act \<and>
        resourceType r = md_resourceType md \<and> resourceId r = md_resourceId md \<and>
        ipAddress r = md_ip md \<and> userAgent r = md_userAgent md \<and>
        queryParams r = md_query md \<and>
        dataHash r = (case md_data md of
                        None \<Rightarrow> None
                      | Some d \<Rightarrow> if truthy d then Some (hashData env d) else None)"
    by blast
qed

theorem log_persists_metadata_unmasked_witness:
  "\<forall>H S D.
     log (ledgerEnv H S D) ledgerAB ''dr.smith'' READ longAddress =
        (Inl (DatabaseError ''value rejected by its column''), ledgerAB) \<and>
     uuidv4 (ledgerEnv H S D) \<notin> set (map id' (rows ledgerAB)) \<and>
     (\<exists>r \<in> set (rows (snd (log (ledgerEnv H S D) ledgerAB ''dr.smith'' READ phiMetadata))).
        id' r = ''3f2b8c1e-7a4d-4e6f-9b0a-5c1d2e3f4a5b'' \<and>
        resourceId r = Some ''MRN-0012345'' \<and>
        queryParams r = Some (JObj [(''ssn'', JStr ''123-45-6789''), (''dateOfBirth'', JStr ''1980-02-29'')]) \<and>
        dataHash r = None) \<and>
     (\<exists>r \<in> set (rows (snd (log (ledgerEnv H S D) ledgerAB ''dr.smith'' READ plainMetadata))).
        resourceId r = Some ''42'' \<and> ipAddress r = Some ''10.0.0.7'' \<and> queryParams r = None)"
proof (intro allI conjI)
  fix H S D
  let ?env = "ledgerEnv H S D"
  have cols: "asColumns ?env = pgColumns" by (simp add: ledgerEnv_def)
  have "asColumns ?env (entryValues ?env ''dr.smith'' READ longAddress) = None"
    by (simp add: cols columns_long)
  then show "log ?env ledgerAB ''dr.smith'' READ longAddress =
        (Inl (DatabaseError ''value rejected by its column''), ledgerAB)"
    using log_persists_metadata_unmasked[of ?env "''dr.smith''" READ longAddress ledgerAB] by blast
  show fresh: "uuidv4 ?env \<notin> set (map id' (rows ledgerAB))"
    by (simp add: ledgerEnv_def ledgerAB_def entryA_def entryB_def)
  let ?s = "(entryValues ?env ''dr.smith'' READ phiMetadata)
            \<lparr>queryParams := Some (JObj [(''ssn'', JStr ''123-45-6789''),
                                        (''dateOfBirth'', JStr ''1980-02-29'')])\<rparr>"
  have "asColumns ?env (entryValues ?env ''dr.smith'' READ phiMetadata) = Some ?s"
    by (simp only: cols columns_phi)
  with log_persists_metadata_unmasked[of ?env "''dr.smith''" READ phiMetadata ledgerAB] fresh
  obtain r where "r \<in> set (rows (snd (log ?env ledgerAB ''dr.smith'' READ phiMetadata)))"
    and "id' r = uuidv4 ?env" and "resourceId r = resourceId ?s"
    and "queryParams r = queryParams ?s" and "dataHash r = dataHash ?s"
    by blast
  then show "\<exists>r \<in> set (rows (snd (log ?env ledgerAB ''dr.smith'' READ phiMetadata))).
        id' r = ''3f2b8c1e-7a4d-4e6f-9b0a-5c1d2e3f4a5b'' \<and>
        resourceId r = Some ''MRN-0012345'' \<and>
        queryParams r = Some (JObj [(''ssn'', JStr ''123-45-6789''), (''dateOfBirth'', JStr ''1980-02-29'')]) \<and>
        dataHash r = None"
    by (intro bexI[of _ r]) (simp_all add: entryValues_def phiMetadata_def ledgerEnv_def)
  have "asColumns ?env (entryValues ?env ''dr.smith'' READ plainMetadata) =
          Some (entryValues ?env ''dr.smith'' READ plainMetadata)"
    by (simp add: cols columns_plain)
  with log_persists_metadata_unmasked[of ?env "''dr.smith''" READ plainMetadata ledgerAB] fresh
  obtain r where "r \<in> set (rows (snd (log ?env ledgerAB ''dr.smith'' READ plainMetadata)))"
    and "resourceId r = md_resourceId plainMetadata" and "ipAddress r = md_ip plainMetadata"
    and "queryParams r = md_query plainMetadata"
    by blast
  then show "\<exists>r \<in> set (rows (snd (log ?env ledgerAB ''dr.smith'' READ plainMetadata))).
        resourceId r = Some ''42'' \<and> ipAddress r = Some ''10.0.0.7'' \<and> queryParams r = None"
    by (intro bexI[of _ r]) (simp_all add: plainMetadata_def)
qed

text \<open>
  Claim C5 as stated says that a field whose key indicates protected health information is
  masked before the entry is stored. A query with a social security number and a date of
  birth, and a medical record number as resource id, are stored as they are (the query
  with its keys in the order of the store).
\<close>

theorem log_stores_phi_counterexample:
  "\<forall>H S D.
     map queryParams (rows (snd (log (ledgerEnv H S D) emptyLedger ''dr.smith'' READ phiMetadata))) =
       [Some (JObj [(''ssn'', JStr ''123-45-6789''), (''dateOfBirth'', JStr ''1980-02-29'')])] \<and>
     map resourceId (rows (snd (log (ledgerEnv H S D) emptyLedger ''dr.smith'' READ phiMetadata))) =
       [Some ''MRN-0012345'']"
proof (intro allI)
  fix H S D
  let ?env = "ledgerEnv H S D"
  let ?s = "(entryValues ?env ''dr.smith'' READ phiMetadata)
            \<lparr>queryParams := Some (JObj [(''ssn'', JStr ''123-45-6789''),
                                        (''dateOfBirth'', JStr ''1980-02-29'')])\<rparr>"
  have cols: "asColumns ?env (entryValues ?env ''dr.smith'' READ phiMetadata) = Some ?s"
    by (simp add: ledgerEnv_def columns_phi)
  have c: "map content (rows (snd (log ?env emptyLedger ''dr.smith'' READ phiMetadata))) =
        [content (withDefaults ?env ?s)]"
    by (simp only: content_log cols) (simp add: emptyLedger_def)
  then obtain r where r: "rows (snd (log ?env emptyLedger ''dr.smith'' READ phiMetadata)) = [r]"
    and "content r = content (withDefaults ?env ?s)"
    by auto
  from fields_content[OF this(2)]
  have "queryParams r = queryParams (withDefaults ?env ?s)"
    and "resourceId r = resourceId (withDefaults ?env ?s)" by simp_all
  then have "queryParams r =
        Some (JObj [(''ssn'', JStr ''123-45-6789''), (''dateOfBirth'', JStr ''1980-02-29'')])"
    and "resourceId r = Some ''MRN-0012345''"
    by (simp_all add: withDefaults_def entryValues_def phiMetadata_def)
  then show "map queryParams (rows (snd (log ?env emptyLedger ''dr.smith'' READ phiMetadata))) =
       [Some (JObj [(''ssn'', JStr ''123-45-6789''), (''dateOfBirth'', JStr ''1980-02-29'')])] \<and>
     map resourceId (rows (snd (log ?env emptyLedger ''dr.smith'' READ phiMetadata))) =
       [Some ''MRN-0012345'']"
    by (simp add: r)
qed

subsection \<open>Failures of the anchor and of the subscribers\<close>

















subsection \<open>The Merkle root of a batch\<close>

lemma newLevel_length: "length (newLevel env hs) = (length hs + 1) div 2"
  by (induction env hs rule: newLevel.induct) auto








section \<open>Properties of the key service\<close>

subsection \<open>Updates, the cache and the status check\<close>

lemma updateKeyMetadata_raises: "\<exists>err. updateKeyMetadata st k u = Inl err"
  by (simp add: updateKeyMetadata_def split: sum.splits option.splits)

lemma updateKeyMetadata_known:
  "getKeyMetadata st k = Inr (Some m) \<Longrightarrow> updateKeyMetadata st k u = Inl (undefinedProperty ''map'')"
  by (simp add: updateKeyMetadata_def)

lemma revokeKey_raises: "\<exists>err. revokeKey env st k reason = (Inl err, st)"
proof (cases "getKeyMetadata st k")
  case (Inl e)
  then show ?thesis by (simp add: revokeKey_def)
next
  case (Inr m)
  obtain err where "updateKeyMetadata st k
      \<lparr>u_status = ''revoked'', u_at = kmsNow env, u_replacedBy = None, u_revocationReason = Some reason\<rparr> = Inl err"
    using updateKeyMetadata_raises by blast
  with Inr show ?thesis by (simp add: revokeKey_def)
qed

lemma cache_hit:
  "keyCache st k = Some c \<Longrightarrow> kmsNow env < expiresAt c \<Longrightarrow>
     getPrivateKey env st k = (Inr (privateKey c), st)"
  by (simp add: getPrivateKey_def)

lemma getKeyMetadata_cache: "getKeyMetadata (st\<lparr>keyCache := c\<rparr>) k = getKeyMetadata st k"
  by (simp add: getKeyMetadata_def)

lemma getKeyMetadata_devices:
  "devices st1 = devices st \<Longrightarrow> getKeyMetadata st1 k = getKeyMetadata st k"
  by (simp add: getKeyMetadata_def)

lemma find_append:
  "find P (xs @ ys) = (case find P xs of None \<Rightarrow> find P ys | Some x \<Rightarrow> Some x)"
  by (induction xs) auto

lemma getKeyMetadata_append:
  assumes "getKeyMetadata st k = Inr (Some old)" and "devices st1 = devices st @ ds"
  shows "getKeyMetadata st1 k = Inr (Some old)"
proof -
  from assms(1) obtain d where "find (\<lambda>d. dev_identifier d = k) (devices st) = Some d"
    by (auto simp: getKeyMetadata_def split: option.splits)
  then have "find (\<lambda>d. dev_identifier d = k) (devices st1) = Some d"
    by (simp add: assms(2) find_append)
  then show ?thesis using assms(1) \<open>find (\<lambda>d. dev_identifier d = k) (devices st) = Some d\<close>
    by (simp add: getKeyMetadata_def)
qed

lemma getKeyMetadata_other:
  assumes "devices st1 = devices st @ [d]" and "dev_identifier d \<noteq> k"
  shows "getKeyMetadata st1 k = getKeyMetadata st k"
  using assms by (simp add: getKeyMetadata_def find_append split: option.splits)

lemma vault_after_cache:
  assumes "keyCache st1 k = keyCache st k" and "getKeyMetadata st1 k = getKeyMetadata st k"
  shows "fst (getPrivateKey env st1 k) = fst (getPrivateKey env st k)"
proof -
  have r: "\<And>c c'. fst (retrieveFromVault env (st1\<lparr>keyCache := c\<rparr>) k) =
                   fst (retrieveFromVault env (st\<lparr>keyCache := c'\<rparr>) k)"
    using assms(2)
    by (simp add: retrieveFromVault_def getKeyMetadata_cache split: sum.splits option.splits)
  have r0: "fst (retrieveFromVault env st1 k) = fst (retrieveFromVault env st k)"
    using assms(2) by (simp add: retrieveFromVault_def split: sum.splits option.splits)
  show ?thesis
  proof (cases "keyCache st k")
    case None
    then show ?thesis using assms(1) r0 by (simp add: getPrivateKey_def)
  next
    case (Some c)
    then show ?thesis using assms(1) r by (simp add: getPrivateKey_def)
  qed
qed

subsection \<open>What generateKey leaves behind\<close>

lemma generateKey_shape:
  "(\<exists>err. generateKey env st params = (Inl err, st)) \<or>
   (\<exists>err c. generateKey env st params = (Inl err, st\<lparr>keyCache := (keyCache st)(randomUUID env \<mapsto> c)\<rparr>)) \<or>
   (\<exists>new c. generateKey env st params =
        (Inr new, \<lparr>devices = devices st @ [g_meta new],
                   keyCache = (keyCache st)(randomUUID env \<mapsto> c)\<rparr>) \<and>
      g_keyId new = randomUUID env \<and> dev_identifier (g_meta new) = randomUUID env \<and>
      expiresAt c = kmsNow env + 300000)"
  by (cases st) (auto simp: generateKey_def Let_def storeKeyMetadata_def split: sum.splits)

lemma generateKey_answers:
  assumes "collaboratorsAnswer env"
  shows "\<exists>new c. generateKey env st params =
        (Inr new, \<lparr>devices = devices st @ [g_meta new],
                   keyCache = (keyCache st)(randomUUID env \<mapsto> c)\<rparr>) \<and>
      g_keyId new = randomUUID env \<and> dev_identifier (g_meta new) = randomUUID env \<and>
      expiresAt c = kmsNow env + 300000"
proof -
  from assms obtain tx where tx: "submitKeyGeneration env = Inr tx"
    and al: "auditLog env = Inr ()"
    and gm: "\<forall>n c. \<exists>material. generateKeyMaterial env n c = Inr material"
    unfolding collaboratorsAnswer_def by blast
  let ?ownerId = "case p_ownerId params of None \<Rightarrow> None | Some i \<Rightarrow> if i = [] then None else Some i"
  from gm obtain material where m: "generateKeyMaterial env (orDefault (p_keySize params) 256)
      (orDefault (p_ownerType params) ''Patient'' @ ''/'' @ orDefault ?ownerId ''system'' @ ''/'' @
       orDefault (p_keyType params) ''data-encryption'') = Inr material"
    by blast
  show ?thesis
    using m tx al
    apply (cases st)
    apply (simp add: generateKey_def Let_def storeKeyMetadata_def)
    apply (rule exI[of _ "\<lparr>privateKey = km_privateKey material, expiresAt = kmsNow env + 300000\<rparr>"])
    apply simp
    done
qed

lemma generateKey_cache:
  "randomUUID env \<noteq> k \<Longrightarrow> keyCache (snd (generateKey env st params)) k = keyCache st k"
  by (simp add: generateKey_def Let_def storeKeyMetadata_def split: sum.splits)

lemma generateKey_metadata:
  assumes "randomUUID env \<noteq> k"
  shows "getKeyMetadata (snd (generateKey env st params)) k = getKeyMetadata st k"
proof -
  consider (a) err where "generateKey env st params = (Inl err, st)"
    | (b) err c where "generateKey env st params =
          (Inl err, st\<lparr>keyCache := (keyCache st)(randomUUID env \<mapsto> c)\<rparr>)"
    | (c) new c where "generateKey env st params =
          (Inr new, \<lparr>devices = devices st @ [g_meta new],
                     keyCache = (keyCache st)(randomUUID env \<mapsto> c)\<rparr>)"
        "dev_identifier (g_meta new) = randomUUID env"
    using generateKey_shape[of env st params] by blast
  then show ?thesis
  proof cases
    case a
    then show ?thesis by simp
  next
    case b
    then show ?thesis by (simp add: getKeyMetadata_cache)
  next
    case c
    let ?st1 = "\<lparr>devices = devices st @ [g_meta new],
                 keyCache = (keyCache st)(randomUUID env \<mapsto> c)\<rparr>"
    have "getKeyMetadata ?st1 k = getKeyMetadata st k"
      using assms c(2) by (intro getKeyMetadata_other[of ?st1 st "g_meta new"]) simp_all
    then show ?thesis by (simp add: c(1))
  qed
qed

subsection \<open>What rotateKey does\<close>


lemma rotateKey_known:
  assumes "getKeyMetadata st k = Inr (Some old)"
    and "generateKey env st (rotationParams old) = (Inr new, st1)"
    and "devices st1 = devices st @ [g_meta new]"
  shows "rotateKey env st k = (Inl (undefinedProperty ''map''), st1)"
proof -
  have "getKeyMetadata st1 k = Inr (Some old)"
    using assms(1,3) by (rule getKeyMetadata_append)
  then have "updateKeyMetadata st1 k (rotationUpdates env new) = Inl (undefinedProperty ''map'')"
    by (rule updateKeyMetadata_known)
  then show ?thesis using assms(1,2) by (simp add: rotateKey_def)
qed

lemma rotateKey_state:
  "snd (rotateKey env st k) = st \<or>
   (\<exists>old. getKeyMetadata st k = Inr (Some old) \<and>
      snd (rotateKey env st k) = snd (generateKey env st (rotationParams old)))"
proof (cases "getKeyMetadata st k")
  case (Inl e)
  then show ?thesis by (simp add: rotateKey_def)
next
  case (Inr mo)
  show ?thesis
  proof (cases mo)
    case None
    with Inr show ?thesis by (simp add: rotateKey_def)
  next
    case (Some old)
    obtain r st1 where g: "generateKey env st (rotationParams old) = (r, st1)" by fastforce
    show ?thesis
    proof (cases r)
      case (Inl e)
      then show ?thesis using Inr Some g by (simp add: rotateKey_def)
    next
      case (Inr new)
      obtain err where "updateKeyMetadata st1 k (rotationUpdates env new) = Inl err"
        using updateKeyMetadata_raises by blast
      then show ?thesis using \<open>getKeyMetadata st k = Inr mo\<close> Some g Inr by (simp add: rotateKey_def)
    qed
  qed
qed

lemma rotateKey_raises: "\<exists>err. fst (rotateKey env st k) = Inl err"
proof (cases "getKeyMetadata st k")
  case (Inl e)
  then show ?thesis by (simp add: rotateKey_def)
next
  case (Inr mo)
  show ?thesis
  proof (cases mo)
    case None
    with Inr show ?thesis by (simp add: rotateKey_def)
  next
    case (Some old)
    obtain r st1 where g: "generateKey env st (rotationParams old) = (r, st1)" by fastforce
    show ?thesis
    proof (cases r)
      case (Inl e)
      then show ?thesis using Inr Some g by (simp add: rotateKey_def)
    next
      case (Inr new)
      obtain err where "updateKeyMetadata st1 k (rotationUpdates env new) = Inl err"
        using updateKeyMetadata_raises by blast
      then show ?thesis using \<open>getKeyMetadata st k = Inr mo\<close> Some g Inr by (simp add: rotateKey_def)
    qed
  qed
qed

lemma rotateKey_cache:
  assumes "randomUUID env \<noteq> k"
  shows "keyCache (snd (rotateKey env st k)) k = keyCache st k"
  using rotateKey_state[of env st k] generateKey_cache[OF assms] by auto

lemma rotateKey_metadata:
  assumes "randomUUID env \<noteq> k"
  shows "getKeyMetadata (snd (rotateKey env st k)) k = getKeyMetadata st k"
  using rotateKey_state[of env st k] generateKey_metadata[OF assms] by auto

subsection \<open>The successor of a rotated key\<close>










subsection \<open>The example states\<close>

lemma kmsWithKey_eval:
  "kmsWithKey = \<lparr>devices = [keyOneDevice],
     keyCache = [keyOne \<mapsto> \<lparr>privateKey = ''PRIVATE-KEY-1'', expiresAt = 1700000300000\<rparr>]\<rparr>"
  by (simp add: kmsWithKey_def generateKey_def Let_def kmsEnv_def emptyKms_def patientKey_def
      orDefault_def storeKeyMetadata_def getRotationPolicy_def policies_def getSecurityTags_def
      keyOneDevice_def)

lemma kmsWithKey_cache:
  "keyCache kmsWithKey keyOne = Some \<lparr>privateKey = ''PRIVATE-KEY-1'', expiresAt = 1700000300000\<rparr>"
  by (simp add: kmsWithKey_eval)

lemma keyOneDevice_parse: "parseKeyMetadata keyOneDevice = Inr keyOneMeta"
  by (simp add: keyOneDevice_def parseKeyMetadata_def keyMetadataUrl_def
      getRotationPolicy_def policies_def keyOneMeta_def)

lemma kmsWithKey_meta: "getKeyMetadata kmsWithKey keyOne = Inr (Some keyOneMeta)"
  by (simp add: getKeyMetadata_def kmsWithKey_eval keyOneDevice_parse) (simp add: keyOneDevice_def)

lemma kmsEnv_answers: "collaboratorsAnswer kmsEnv \<and> collaboratorsAnswer rotationEnv"
  by (simp add: collaboratorsAnswer_def rotationEnv_def kmsEnv_def)

lemma keys_differ: "keyTwo \<noteq> keyOne"
  by (simp add: keyOne_def keyTwo_def)

subsection \<open>Revocation\<close>

text \<open>
  Claim C2 says that after \<^verbatim>\<open>revokeKey\<close> every \<^verbatim>\<open>getPrivateKey\<close> for the key fails,
  the cached material being evicted at once. In the code \<^verbatim>\<open>revokeKey\<close> never gets that
  far: for every key and every state it raises inside \<^verbatim>\<open>_updateKeyMetadata\<close> and leaves
  the state as it was, status and cache included. A later \<^verbatim>\<open>getPrivateKey\<close> that finds
  an unexpired cache entry for the key returns the private key.
\<close>

theorem revokeKey_raises_before_eviction:
  "(\<exists>err. revokeKey env st k reason = (Inl err, st)) \<and>
   (\<forall>c. keyCache st k = Some c \<and> kmsNow env' < expiresAt c \<longrightarrow>
      getPrivateKey env' (snd (revokeKey env st k reason)) k = (Inr (privateKey c), st))"
proof -
  obtain err where r: "revokeKey env st k reason = (Inl err, st)" using revokeKey_raises by blast
  then show ?thesis using cache_hit[of st k _ env'] by auto
qed

theorem revokeKey_raises_before_eviction_witness:
  "revokeKey (kmsEnv\<lparr>kmsNow := 1700000010000\<rparr>) kmsWithKey keyOne ''security-incident'' =
      (Inl (undefinedProperty ''map''), kmsWithKey) \<and>
   keyCache kmsWithKey keyOne = Some \<lparr>privateKey = ''PRIVATE-KEY-1'', expiresAt = 1700000300000\<rparr> \<and>
   getPrivateKey (kmsEnv\<lparr>kmsNow := 1700000020000\<rparr>)
      (snd (revokeKey (kmsEnv\<lparr>kmsNow := 1700000010000\<rparr>) kmsWithKey keyOne ''security-incident''))
      keyOne = (Inr ''PRIVATE-KEY-1'', kmsWithKey) \<and>
   fst (getPrivateKey (kmsEnv\<lparr>kmsNow := 1700000600000\<rparr>) kmsWithKey keyOne) =
      Inr ''PRIVATE-KEY-FROM-VAULT''"
proof (intro conjI)
  let ?env = "kmsEnv\<lparr>kmsNow := 1700000010000\<rparr>" and ?env' = "kmsEnv\<lparr>kmsNow := 1700000020000\<rparr>"
  show r: "revokeKey ?env kmsWithKey keyOne ''security-incident'' =
      (Inl (undefinedProperty ''map''), kmsWithKey)"
    by (simp add: revokeKey_def updateKeyMetadata_def kmsWithKey_meta)
  show c: "keyCache kmsWithKey keyOne =
      Some \<lparr>privateKey = ''PRIVATE-KEY-1'', expiresAt = 1700000300000\<rparr>"
    by (rule kmsWithKey_cache)
  have live: "kmsNow ?env' < expiresAt \<lparr>privateKey = ''PRIVATE-KEY-1'', expiresAt = 1700000300000\<rparr>"
    by (simp add: kmsEnv_def)
  from revokeKey_raises_before_eviction[of ?env kmsWithKey keyOne "''security-incident''" ?env']
  have "getPrivateKey ?env' (snd (revokeKey ?env kmsWithKey keyOne ''security-incident'')) keyOne =
      (Inr (privateKey \<lparr>privateKey = ''PRIVATE-KEY-1'', expiresAt = 1700000300000\<rparr>), kmsWithKey)"
    using c live by blast
  then show "getPrivateKey ?env' (snd (revokeKey ?env kmsWithKey keyOne ''security-incident'')) keyOne =
      (Inr ''PRIVATE-KEY-1'', kmsWithKey)"
    by simp
  show "fst (getPrivateKey (kmsEnv\<lparr>kmsNow := 1700000600000\<rparr>) kmsWithKey keyOne) =
      Inr ''PRIVATE-KEY-FROM-VAULT''"
    by (simp add: getPrivateKey_def kmsWithKey_cache retrieveFromVault_def getKeyMetadata_cache
        kmsWithKey_meta keyOneMeta_def kmsEnv_def)
qed

subsection \<open>The cache comes before the status\<close>

text \<open>
  Claim C10 says that a rotated key is handed out from the cache until its entry expires,
  and refused for its status from then on. The first part holds: a cache entry that has
  not expired is returned by \<^verbatim>\<open>getPrivateKey\<close> as it is, whatever the key's metadata
  say, and \<^verbatim>\<open>rotateKey\<close> leaves the cache entry of the old key alone. But
  \<^verbatim>\<open>rotateKey\<close> never sets a status: for every key and every state it raises (inside
  \<^verbatim>\<open>_updateKeyMetadata\<close>, when the key is known and its successor has been generated),
  and the metadata of the old key read afterwards as they did before. \<^verbatim>\<open>revokeKey\<close>
  raises as well and evicts nothing. So at every later time \<^verbatim>\<open>getPrivateKey\<close> gives for
  the old key what it would have given without the rotation: once the cache entry has
  expired, the key is fetched from the vault again.
\<close>

theorem rotateKey_sets_no_status:
  "(\<exists>err. fst (rotateKey env st k) = Inl err) \<and>
   (\<exists>err. revokeKey env st k reason = (Inl err, st)) \<and>
   (\<forall>c. keyCache st k = Some c \<and> kmsNow env' < expiresAt c \<longrightarrow>
      getPrivateKey env' st k = (Inr (privateKey c), st)) \<and>
   (randomUUID env \<noteq> k \<longrightarrow>
      keyCache (snd (rotateKey env st k)) k = keyCache st k \<and>
      getKeyMetadata (snd (rotateKey env st k)) k = getKeyMetadata st k \<and>
      fst (getPrivateKey env' (snd (rotateKey env st k)) k) = fst (getPrivateKey env' st k))"
proof (intro conjI allI impI)
  show "\<exists>err. fst (rotateKey env st k) = Inl err" by (rule rotateKey_raises)
  show "\<exists>err. revokeKey env st k reason = (Inl err, st)" by (rule revokeKey_raises)
next
  fix c assume "keyCache st k = Some c \<and> kmsNow env' < expiresAt c"
  then show "getPrivateKey env' st k = (Inr (privateKey c), st)" by (simp add: cache_hit)
next
  assume ne: "randomUUID env \<noteq> k"
  show c: "keyCache (snd (rotateKey env st k)) k = keyCache st k"
    using ne by (rule rotateKey_cache)
  show m: "getKeyMetadata (snd (rotateKey env st k)) k = getKeyMetadata st k"
    using ne by (rule rotateKey_metadata)
  show "fst (getPrivateKey env' (snd (rotateKey env st k)) k) = fst (getPrivateKey env' st k)"
    using c m by (rule vault_after_cache)
qed

text \<open>
  The key \<open>keyOne\<close> is generated, rotated thirty seconds later, and asked for twenty
  seconds and ten minutes after its generation.
\<close>

theorem rotateKey_sets_no_status_witness:
  "fst (rotateKey rotationEnv kmsWithKey keyOne) = Inl (undefinedProperty ''map'') \<and>
   map_sum id (map_option status) (getKeyMetadata (snd (rotateKey rotationEnv kmsWithKey keyOne)) keyOne) =
      Inr (Some ''active'') \<and>
   fst (getPrivateKey (kmsEnv\<lparr>kmsNow := 1700000050000\<rparr>)
          (snd (rotateKey rotationEnv kmsWithKey keyOne)) keyOne) = Inr ''PRIVATE-KEY-1'' \<and>
   fst (getPrivateKey (kmsEnv\<lparr>kmsNow := 1700000600000\<rparr>)
          (snd (rotateKey rotationEnv kmsWithKey keyOne)) keyOne) = Inr ''PRIVATE-KEY-FROM-VAULT''"
proof (intro conjI)
  have ne: "randomUUID rotationEnv \<noteq> keyOne" by (simp add: rotationEnv_def keys_differ)
  obtain new c where g: "generateKey rotationEnv kmsWithKey (rotationParams keyOneMeta) =
        (Inr new, \<lparr>devices = devices kmsWithKey @ [g_meta new],
                   keyCache = (keyCache kmsWithKey)(randomUUID rotationEnv \<mapsto> c)\<rparr>)"
    using generateKey_answers[of rotationEnv kmsWithKey "rotationParams keyOneMeta"] kmsEnv_answers
    by blast
  show "fst (rotateKey rotationEnv kmsWithKey keyOne) = Inl (undefinedProperty ''map'')"
    using rotateKey_known[OF kmsWithKey_meta g] by simp
  note t = rotateKey_sets_no_status[of rotationEnv kmsWithKey keyOne]
  from t ne have "getKeyMetadata (snd (rotateKey rotationEnv kmsWithKey keyOne)) keyOne =
      getKeyMetadata kmsWithKey keyOne" by blast
  then show "map_sum id (map_option status)
        (getKeyMetadata (snd (rotateKey rotationEnv kmsWithKey keyOne)) keyOne) = Inr (Some ''active'')"
    by (simp add: kmsWithKey_meta keyOneMeta_def)
  let ?soon = "kmsEnv\<lparr>kmsNow := 1700000050000\<rparr>" and ?late = "kmsEnv\<lparr>kmsNow := 1700000600000\<rparr>"
  have "fst (getPrivateKey ?soon (snd (rotateKey rotationEnv kmsWithKey keyOne)) keyOne) =
        fst (getPrivateKey ?soon kmsWithKey keyOne)"
    using rotateKey_sets_no_status[of rotationEnv kmsWithKey keyOne _ ?soon] ne by blast
  then show "fst (getPrivateKey ?soon (snd (rotateKey rotationEnv kmsWithKey keyOne)) keyOne) =
        Inr ''PRIVATE-KEY-1''"
    by (simp add: getPrivateKey_def kmsWithKey_cache)
  have "fst (getPrivateKey ?late (snd (rotateKey rotationEnv kmsWithKey keyOne)) keyOne) =
        fst (getPrivateKey ?late kmsWithKey keyOne)"
    using rotateKey_sets_no_status[of rotationEnv kmsWithKey keyOne _ ?late] ne by blast
  then show "fst (getPrivateKey ?late (snd (rotateKey rotationEnv kmsWithKey keyOne)) keyOne) =
        Inr ''PRIVATE-KEY-FROM-VAULT''"
    by (simp add: getPrivateKey_def kmsWithKey_cache retrieveFromVault_def getKeyMetadata_cache
        kmsWithKey_meta keyOneMeta_def kmsEnv_def)
qed

subsection \<open>Rotation\<close>




section \<open>Properties of the encryption service\<close>

subsection \<open>Chunking and the outcome of encrypt\<close>

lemma chunkLoop_total:
  "0 < n \<Longrightarrow> \<exists>cs. chunkLoop d n i acc = Some (acc @ cs) \<and> (i < length d \<longrightarrow> cs \<noteq> [])"
proof (induction "length d - i" arbitrary: i acc rule: less_induct)
  case less
  show ?case
  proof (cases "i < length d")
    case False
    then show ?thesis by (subst chunkLoop.simps) simp
  next
    case True
    then have "length d - (i + n) < length d - i" using less.prems by arith
    from less.hyps[OF this less.prems, of "acc @ [take n (drop i d)]"]
    obtain cs where "chunkLoop d n (i + n) (acc @ [take n (drop i d)]) = Some ((acc @ [take n (drop i d)]) @ cs)"
      by blast
    then have "chunkLoop d n i acc = Some (acc @ (take n (drop i d) # cs))"
      using True by (subst chunkLoop.simps) simp
    then show ?thesis by blast
  qed
qed

lemma chunkLoop_returns:
  assumes "chunkLoop d n i acc = Some y"
  shows "i < length d \<longrightarrow> 0 < n"
  using assms
proof (rule chunkLoop.raw_induct[where P = "\<lambda>d n i acc y. i < length d \<longrightarrow> 0 < n", rotated])
  fix f :: "string \<Rightarrow> nat \<Rightarrow> nat \<Rightarrow> string list \<Rightarrow> string list option"
    and d n i chunks y
  assume IH: "\<And>d n i chunks y. f d n i chunks = Some y \<Longrightarrow> i < length d \<longrightarrow> 0 < n"
    and step: "(if i < length d then f d n (i + n) (chunks @ [take n (drop i d)])
                else Some chunks) = Some y"
  show "i < length d \<longrightarrow> 0 < n"
  proof
    assume l: "i < length d"
    with step have "f d n (i + n) (chunks @ [take n (drop i d)]) = Some y" by simp
    from IH[OF this] show "0 < n" using l by (cases "n = 0") auto
  qed
qed

lemma chunkLoop_zero: "i < length d \<Longrightarrow> chunkLoop d 0 i acc = None"
  using chunkLoop_returns[of d 0 i acc] by (cases "chunkLoop d 0 i acc") auto

lemma chunkData_nonempty:
  assumes "0 < n" and "d \<noteq> []"
  shows "\<exists>c cs. chunkData d n = Some (c # cs)"
proof -
  from chunkLoop_total[OF assms(1), of d 0 "[]"] assms(2)
  obtain cs where "chunkLoop d n 0 [] = Some cs" "cs \<noteq> []" by auto
  then show ?thesis by (cases cs) (auto simp: chunkData_def)
qed

lemma chunkData_empty: "chunkData [] n = Some []"
  by (simp add: chunkData_def chunkLoop.simps)

lemma prepare_registered:
  "keyRegistry st k = Some ki \<Longrightarrow>
   deriveKey env (keySize ki) (quantumSalt ki) (keyContext ki) = Inr key \<Longrightarrow>
     prepareKeyAndIV env st k =
       (Inr (key, randomBytes12 env),
        st\<lparr>keyRegistry := (keyRegistry st)(k \<mapsto> ki\<lparr>lastUsed := Some (aesNow env)\<rparr>)\<rparr>)"
  by (simp add: prepareKeyAndIV_def)

lemma encryptChunks_raises:
  "encryptChunks env key v opts n i (c # cs) acc =
     Inl (if length key = 32 then TypeError ''Assignment to constant variable.''
          else RangeError ''Invalid key length'')"
  by (simp add: Let_def split: prod.splits)

lemma encrypt_nonempty:
  assumes "keyRegistry st k = Some ki"
    and "deriveKey env (keySize ki) (quantumSalt ki) (keyContext ki) = Inr key"
    and "d \<noteq> []" and "0 < orDefault (chunkSize opts) 64"
  shows "encrypt env st d k opts =
      Some (Inl (if length key = 32 then TypeError ''Assignment to constant variable.''
                 else RangeError ''Invalid key length''),
            st\<lparr>keyRegistry := (keyRegistry st)(k \<mapsto> ki\<lparr>lastUsed := Some (aesNow env)\<rparr>)\<rparr>)"
proof -
  obtain c cs where c: "chunkData d (orDefault (chunkSize opts) 64 * 1024) = Some (c # cs)"
    using chunkData_nonempty[of "orDefault (chunkSize opts) 64 * 1024" d] assms(3,4) by auto
  show ?thesis
    by (simp add: encrypt_def prepare_registered[OF assms(1,2)] c encryptChunks_raises
        del: encryptChunks.simps)
qed

lemma encrypt_envelope_empty:
  assumes "encrypt env st d k opts = Some (Inr e, st1)"
  shows "e = Many [] \<and> d = []"
proof -
  from assms obtain key v st0 where p: "prepareKeyAndIV env st k = (Inr (key, v), st0)"
    by (auto simp: encrypt_def split: prod.splits sum.splits)
  from assms p obtain chunks where c: "chunkData d (orDefault (chunkSize opts) 64 * 1024) = Some chunks"
    by (auto simp: encrypt_def split: option.splits)
  show ?thesis
  proof (cases chunks)
    case Nil
    have "d = []"
    proof (rule ccontr)
      assume ne: "d \<noteq> []"
      show False
      proof (cases "0 < orDefault (chunkSize opts) 64 * 1024")
        case True
        then show False using chunkData_nonempty[OF True ne] c Nil by simp
      next
        case False
        then show False using ne c chunkLoop_zero[of 0 d "[]"] by (simp add: chunkData_def)
      qed
    qed
    moreover have "e = Many []"
      using assms p c Nil by (auto simp: encrypt_def split: sum.splits)
    ultimately show ?thesis by simp
  next
    case (Cons a as)
    with assms p c show ?thesis
      by (simp add: encrypt_def encryptChunks_raises del: encryptChunks.simps)
  qed
qed

text \<open>
  Claim C3 says that decrypting what \<^verbatim>\<open>encrypt\<close> returns gives back the plaintext. For a
  registered key whose derivation succeeds and a chunk size above zero, \<^verbatim>\<open>encrypt\<close> of
  any plaintext that is not empty returns, and what it returns is an exception: the
  TypeError of the assignment to \<^verbatim>\<open>iv\<close> when the derived key has the 32 bytes that the
  cipher takes, and the cipher's RangeError otherwise. There is no envelope to decrypt.
  Only the empty plaintext gets an envelope, the empty array, which decrypts to the empty
  string.
\<close>

theorem encrypt_raises_on_nonempty:
  "(keyRegistry st k = Some ki \<and>
    deriveKey env (keySize ki) (quantumSalt ki) (keyContext ki) = Inr key \<and>
    d \<noteq> [] \<and> 0 < orDefault (chunkSize opts) 64 \<longrightarrow>
      (\<exists>err st1. encrypt env st d k opts = Some (Inl err, st1)) \<and>
      (length key = 32 \<longrightarrow>
         (\<exists>st1. encrypt env st d k opts =
                   Some (Inl (TypeError ''Assignment to constant variable.''), st1))) \<and>
      (length key \<noteq> 32 \<longrightarrow>
         (\<exists>st1. encrypt env st d k opts =
                   Some (Inl (RangeError ''Invalid key length''), st1)))) \<and>
   (keyRegistry st k = Some ki \<and>
    deriveKey env (keySize ki) (quantumSalt ki) (keyContext ki) = Inr key \<and>
    aesAuditLog env = Inr () \<longrightarrow>
      (\<exists>st1. encrypt env st [] k opts = Some (Inr (Many []), st1) \<and>
             fst (decrypt env st1 (Many []) k opts) = Inr [])) \<and>
   (\<forall>e st1. encrypt env st d k opts = Some (Inr e, st1) \<longrightarrow> e = Many [] \<and> d = [])"
proof -
  have first: "keyRegistry st k = Some ki \<and>
    deriveKey env (keySize ki) (quantumSalt ki) (keyContext ki) = Inr key \<and>
    d \<noteq> [] \<and> 0 < orDefault (chunkSize opts) 64 \<longrightarrow>
      (\<exists>err st1. encrypt env st d k opts = Some (Inl err, st1)) \<and>
      (length key = 32 \<longrightarrow>
         (\<exists>st1. encrypt env st d k opts =
                   Some (Inl (TypeError ''Assignment to constant variable.''), st1))) \<and>
      (length key \<noteq> 32 \<longrightarrow>
         (\<exists>st1. encrypt env st d k opts =
                   Some (Inl (RangeError ''Invalid key length''), st1)))"
  proof
    assume a: "keyRegistry st k = Some ki \<and>
      deriveKey env (keySize ki) (quantumSalt ki) (keyContext ki) = Inr key \<and>
      d \<noteq> [] \<and> 0 < orDefault (chunkSize opts) 64"
    then have e: "encrypt env st d k opts =
        Some (Inl (if length key = 32 then TypeError ''Assignment to constant variable.''
                   else RangeError ''Invalid key length''),
              st\<lparr>keyRegistry := (keyRegistry st)(k \<mapsto> ki\<lparr>lastUsed := Some (aesNow env)\<rparr>)\<rparr>)"
      by (simp add: encrypt_nonempty)
    show "(\<exists>err st1. encrypt env st d k opts = Some (Inl err, st1)) \<and>
      (length key = 32 \<longrightarrow>
         (\<exists>st1. encrypt env st d k opts =
                   Some (Inl (TypeError ''Assignment to constant variable.''), st1))) \<and>
      (length key \<noteq> 32 \<longrightarrow>
         (\<exists>st1. encrypt env st d k opts =
                   Some (Inl (RangeError ''Invalid key length''), st1)))"
      by (simp add: e)
  qed
  have second: "keyRegistry st k = Some ki \<and>
    deriveKey env (keySize ki) (quantumSalt ki) (keyContext ki) = Inr key \<and>
    aesAuditLog env = Inr () \<longrightarrow>
      (\<exists>st1. encrypt env st [] k opts = Some (Inr (Many []), st1) \<and>
             fst (decrypt env st1 (Many []) k opts) = Inr [])"
  proof
    assume a: "keyRegistry st k = Some ki \<and>
      deriveKey env (keySize ki) (quantumSalt ki) (keyContext ki) = Inr key \<and>
      aesAuditLog env = Inr ()"
    let ?st1 = "st\<lparr>keyRegistry := (keyRegistry st)(k \<mapsto> ki\<lparr>lastUsed := Some (aesNow env)\<rparr>)\<rparr>"
    have e: "encrypt env st [] k opts = Some (Inr (Many []), ?st1)"
      using a by (simp add: encrypt_def prepareKeyAndIV_def chunkData_empty)
    have "fst (decrypt env ?st1 (Many []) k opts) = Inr []"
      using a by (simp add: decrypt_def prepareKeyAndIV_def keyContext_def chunksOf_def)
    with e show "\<exists>st1. encrypt env st [] k opts = Some (Inr (Many []), st1) \<and>
               fst (decrypt env st1 (Many []) k opts) = Inr []"
      by blast
  qed
  have third: "\<forall>e st1. encrypt env st d k opts = Some (Inr e, st1) \<longrightarrow> e = Many [] \<and> d = []"
    using encrypt_envelope_empty by blast
  from first second third show ?thesis by blast
qed

theorem encrypt_raises_on_nonempty_witness:
  "keyRegistry aesWithKey aesKey \<noteq> None \<and>
   (\<exists>st1. encrypt aesEnv aesWithKey ''systolic-bp:118'' aesKey defaultOptions =
            Some (Inl (TypeError ''Assignment to constant variable.''), st1)) \<and>
   (\<exists>st1. encrypt aesEnv aesWithKey [] aesKey defaultOptions = Some (Inr (Many []), st1)) \<and>
   (\<exists>st1. encrypt shortKeyEnv aesWithKey ''systolic-bp:118'' aesKey defaultOptions =
            Some (Inl (RangeError ''Invalid key length''), st1))"
proof -
  let ?ki = "\<lparr>keySize = 256, ki_keyType = ''patient-data'', ownerId = Some ''patient-42'',
      quantumSalt = ''SALT'', createdAt = 1699990000000, lastUsed = None,
      rotationSchedule = ''30d'', ki_status = None\<rparr>"
  have r: "keyRegistry aesWithKey aesKey = Some ?ki" by (simp add: aesWithKey_def)
  have dk: "deriveKey aesEnv (keySize ?ki) (quantumSalt ?ki) (keyContext ?ki) =
      Inr ''DERIVED-KEY-OF-32-BYTES-00000001''"
    by (simp add: aesEnv_def)
  have dk': "deriveKey shortKeyEnv (keySize ?ki) (quantumSalt ?ki) (keyContext ?ki) =
      Inr ''DERIVED-KEY-20-BYTES''"
    by (simp add: shortKeyEnv_def)
  have l: "length ''DERIVED-KEY-OF-32-BYTES-00000001'' = 32" by simp
  have l': "length ''DERIVED-KEY-20-BYTES'' \<noteq> 32" by simp
  have ne: "''systolic-bp:118'' \<noteq> []" by simp
  have cs: "0 < orDefault (chunkSize defaultOptions) 64" by (simp add: defaultOptions_def orDefault_def)
  have al: "aesAuditLog aesEnv = Inr ()" by (simp add: aesEnv_def)
  from encrypt_raises_on_nonempty[of aesWithKey aesKey ?ki aesEnv "''DERIVED-KEY-OF-32-BYTES-00000001''"
      "''systolic-bp:118''" defaultOptions] r dk ne cs al l
  have a: "(\<exists>st1. encrypt aesEnv aesWithKey ''systolic-bp:118'' aesKey defaultOptions =
            Some (Inl (TypeError ''Assignment to constant variable.''), st1)) \<and>
      (\<exists>st1. encrypt aesEnv aesWithKey [] aesKey defaultOptions = Some (Inr (Many []), st1))"
    by blast
  from encrypt_raises_on_nonempty[of aesWithKey aesKey ?ki shortKeyEnv "''DERIVED-KEY-20-BYTES''"
      "''systolic-bp:118''" defaultOptions] r dk' ne cs l'
  have b: "\<exists>st1. encrypt shortKeyEnv aesWithKey ''systolic-bp:118'' aesKey defaultOptions =
            Some (Inl (RangeError ''Invalid key length''), st1)"
    by blast
  from r a b show ?thesis by simp
qed

subsection \<open>Tampered chunks\<close>

lemma decrypt_registered:
  "keyRegistry st k = Some ki \<Longrightarrow>
   deriveKey env (keySize ki) (quantumSalt ki) (keyContext ki) = Inr key \<Longrightarrow>
     fst (decrypt env st e k opts) =
       (case decryptChunks env key opts (chunksOf e) [] of
          Inl err \<Rightarrow> Inl err
        | Inr decrypted \<Rightarrow>
            (case aesAuditLog env of Inl msg \<Rightarrow> Inl (External msg) | Inr u \<Rightarrow> Inr decrypted))"
  by (simp add: decrypt_def prepare_registered split: sum.splits)

lemma decryptChunks_forwards:
  "length key = 32 \<Longrightarrow>
   \<forall>p \<in> set pre. \<exists>plain.
      gcmDecrypt env key (iv p) (authTag p) (aad opts (index (chunkInfo p))) (data p) = Inr plain \<Longrightarrow>
   gcmDecrypt env key (iv c) (authTag c) (aad opts (index (chunkInfo c))) (data c) = Inl msg \<Longrightarrow>
     decryptChunks env key opts (pre @ c # post) acc = Inl (External msg)"
  by (induction pre arbitrary: acc) auto

lemma decryptChunks_accepted:
  "decryptChunks env key opts cs acc = Inr p \<Longrightarrow>
     \<forall>c \<in> set cs. \<exists>plain.
        gcmDecrypt env key (iv c) (authTag c) (aad opts (index (chunkInfo c))) (data c) = Inr plain"
  by (induction cs arbitrary: acc) (auto split: if_splits sum.splits)

lemma sealed_accepted:
  "authenticatedCipher env \<Longrightarrow> length key = 32 \<Longrightarrow> sealed env key opts c \<Longrightarrow>
     \<exists>plain. gcmDecrypt env key (iv c) (authTag c) (aad opts (index (chunkInfo c))) (data c) = Inr plain"
  unfolding authenticatedCipher_def sealed_def by blast

lemma sealed_flipped_data:
  "authenticatedCipher env \<Longrightarrow> length key = 32 \<Longrightarrow> sealed env key opts c \<Longrightarrow>
   n < 8 * length (data c) \<Longrightarrow>
     gcmDecrypt env key (iv c) (authTag c) (aad opts (index (chunkInfo c))) (flipBit n (data c)) =
       Inl authenticationFailure"
  unfolding authenticatedCipher_def sealed_def by blast

lemma sealed_flipped_tag:
  "authenticatedCipher env \<Longrightarrow> length key = 32 \<Longrightarrow> sealed env key opts c \<Longrightarrow>
   n < 8 * length (authTag c) \<Longrightarrow>
     gcmDecrypt env key (iv c) (flipBit n (authTag c)) (aad opts (index (chunkInfo c))) (data c) =
       Inl authenticationFailure"
  unfolding authenticatedCipher_def sealed_def by blast

lemma chunksOf_withChunk:
  "j < length (chunksOf e) \<Longrightarrow>
     chunksOf (withChunk e j c) = take j (chunksOf e) @ c # drop (Suc j) (chunksOf e)"
  by (cases e) (simp_all add: chunksOf_def withChunk_def upd_conv_take_nth_drop)

lemma tampered_chunk_rejected:
  assumes "length key = 32"
    and "\<forall>c \<in> set (chunksOf e). \<exists>plain.
      gcmDecrypt env key (iv c) (authTag c) (aad opts (index (chunkInfo c))) (data c) = Inr plain"
    and "j < length (chunksOf e)"
    and "gcmDecrypt env key (iv c') (authTag c') (aad opts (index (chunkInfo c'))) (data c') = Inl msg"
  shows "decryptChunks env key opts (chunksOf (withChunk e j c')) [] = Inl (External msg)"
proof -
  have "\<forall>p \<in> set (take j (chunksOf e)). \<exists>plain.
      gcmDecrypt env key (iv p) (authTag p) (aad opts (index (chunkInfo p))) (data p) = Inr plain"
    using assms(2) by (auto dest: in_set_takeD)
  then show ?thesis
    using assms(1,3,4) by (simp add: chunksOf_withChunk decryptChunks_forwards)
qed

text \<open>
  Claim C4, as the code of the chunked service has it. \<^verbatim>\<open>decrypt\<close> defines no error of
  its own: the exception that the cipher raises for a chunk leaves \<^verbatim>\<open>decrypt\<close> as it
  is, as the exception of the key derivation does, and a plaintext is returned only when
  the cipher has accepted every chunk. So with a cipher that does what AES-GCM is
  documented to do, and a key of 32 bytes, an envelope of chunks sealed under the key, in
  which one bit of the ciphertext or of the tag of one chunk has been inverted, makes
  \<^verbatim>\<open>decrypt\<close> raise the cipher's "Unsupported state or unable to authenticate data".
\<close>

theorem decrypt_forwards_cipher_rejection:
  "(\<forall>msg. keyRegistry st k = Some ki \<and>
          deriveKey env (keySize ki) (quantumSalt ki) (keyContext ki) = Inl msg \<longrightarrow>
      fst (decrypt env st e k opts) = Inl (External msg)) \<and>
   (\<forall>pre c post msg. keyRegistry st k = Some ki \<and>
          deriveKey env (keySize ki) (quantumSalt ki) (keyContext ki) = Inr key \<and>
          length key = 32 \<and> chunksOf e = pre @ c # post \<and>
          (\<forall>p \<in> set pre. \<exists>plain.
             gcmDecrypt env key (iv p) (authTag p) (aad opts (index (chunkInfo p))) (data p) = Inr plain) \<and>
          gcmDecrypt env key (iv c) (authTag c) (aad opts (index (chunkInfo c))) (data c) = Inl msg \<longrightarrow>
      fst (decrypt env st e k opts) = Inl (External msg)) \<and>
   (\<forall>plaintext. keyRegistry st k = Some ki \<and>
          deriveKey env (keySize ki) (quantumSalt ki) (keyContext ki) = Inr key \<and>
          fst (decrypt env st e k opts) = Inr plaintext \<longrightarrow>
      (\<forall>c \<in> set (chunksOf e). \<exists>plain.
         gcmDecrypt env key (iv c) (authTag c) (aad opts (index (chunkInfo c))) (data c) = Inr plain)) \<and>
   (authenticatedCipher env \<and> keyRegistry st k = Some ki \<and>
    deriveKey env (keySize ki) (quantumSalt ki) (keyContext ki) = Inr key \<and> length key = 32 \<and>
    (\<forall>c \<in> set (chunksOf e). sealed env key opts c) \<and> j < length (chunksOf e) \<longrightarrow>
      (\<forall>n < 8 * length (data (chunksOf e ! j)).
         fst (decrypt env st
                (withChunk e j ((chunksOf e ! j)\<lparr>data := flipBit n (data (chunksOf e ! j))\<rparr>)) k opts) =
           Inl (External authenticationFailure)) \<and>
      (\<forall>n < 8 * length (authTag (chunksOf e ! j)).
         fst (decrypt env st
                (withChunk e j ((chunksOf e ! j)\<lparr>authTag := flipBit n (authTag (chunksOf e ! j))\<rparr>)) k opts) =
           Inl (External authenticationFailure)))"
proof -
  have derivation: "\<forall>msg. keyRegistry st k = Some ki \<and>
          deriveKey env (keySize ki) (quantumSalt ki) (keyContext ki) = Inl msg \<longrightarrow>
      fst (decrypt env st e k opts) = Inl (External msg)"
    by (simp add: decrypt_def prepareKeyAndIV_def)
  have forwarded: "\<forall>pre c post msg. keyRegistry st k = Some ki \<and>
          deriveKey env (keySize ki) (quantumSalt ki) (keyContext ki) = Inr key \<and>
          length key = 32 \<and> chunksOf e = pre @ c # post \<and>
          (\<forall>p \<in> set pre. \<exists>plain.
             gcmDecrypt env key (iv p) (authTag p) (aad opts (index (chunkInfo p))) (data p) = Inr plain) \<and>
          gcmDecrypt env key (iv c) (authTag c) (aad opts (index (chunkInfo c))) (data c) = Inl msg \<longrightarrow>
      fst (decrypt env st e k opts) = Inl (External msg)"
  proof (intro allI impI)
    fix pre c post msg
    assume a: "keyRegistry st k = Some ki \<and>
          deriveKey env (keySize ki) (quantumSalt ki) (keyContext ki) = Inr key \<and>
          length key = 32 \<and> chunksOf e = pre @ c # post \<and>
          (\<forall>p \<in> set pre. \<exists>plain.
             gcmDecrypt env key (iv p) (authTag p) (aad opts (index (chunkInfo p))) (data p) = Inr plain) \<and>
          gcmDecrypt env key (iv c) (authTag c) (aad opts (index (chunkInfo c))) (data c) = Inl msg"
    then have "decryptChunks env key opts (chunksOf e) [] = Inl (External msg)"
      using decryptChunks_forwards[of key pre env opts c msg post "[]"] by simp
    then show "fst (decrypt env st e k opts) = Inl (External msg)"
      using a by (simp add: decrypt_registered)
  qed
  have accepted: "\<forall>plaintext. keyRegistry st k = Some ki \<and>
          deriveKey env (keySize ki) (quantumSalt ki) (keyContext ki) = Inr key \<and>
          fst (decrypt env st e k opts) = Inr plaintext \<longrightarrow>
      (\<forall>c \<in> set (chunksOf e). \<exists>plain.
         gcmDecrypt env key (iv c) (authTag c) (aad opts (index (chunkInfo c))) (data c) = Inr plain)"
  proof (intro allI impI)
    fix plaintext
    assume a: "keyRegistry st k = Some ki \<and>
          deriveKey env (keySize ki) (quantumSalt ki) (keyContext ki) = Inr key \<and>
          fst (decrypt env st e k opts) = Inr plaintext"
    then obtain p where "decryptChunks env key opts (chunksOf e) [] = Inr p"
      by (auto simp: decrypt_registered split: sum.splits)
    then show "\<forall>c \<in> set (chunksOf e). \<exists>plain.
         gcmDecrypt env key (iv c) (authTag c) (aad opts (index (chunkInfo c))) (data c) = Inr plain"
      by (rule decryptChunks_accepted)
  qed
  have flipped: "authenticatedCipher env \<and> keyRegistry st k = Some ki \<and>
    deriveKey env (keySize ki) (quantumSalt ki) (keyContext ki) = Inr key \<and> length key = 32 \<and>
    (\<forall>c \<in> set (chunksOf e). sealed env key opts c) \<and> j < length (chunksOf e) \<longrightarrow>
      (\<forall>n < 8 * length (data (chunksOf e ! j)).
         fst (decrypt env st
                (withChunk e j ((chunksOf e ! j)\<lparr>data := flipBit n (data (chunksOf e ! j))\<rparr>)) k opts) =
           Inl (External authenticationFailure)) \<and>
      (\<forall>n < 8 * length (authTag (chunksOf e ! j)).
         fst (decrypt env st
                (withChunk e j ((chunksOf e ! j)\<lparr>authTag := flipBit n (authTag (chunksOf e ! j))\<rparr>)) k opts) =
           Inl (External authenticationFailure))"
  proof
    assume a: "authenticatedCipher env \<and> keyRegistry st k = Some ki \<and>
      deriveKey env (keySize ki) (quantumSalt ki) (keyContext ki) = Inr key \<and> length key = 32 \<and>
      (\<forall>c \<in> set (chunksOf e). sealed env key opts c) \<and> j < length (chunksOf e)"
    let ?c = "chunksOf e ! j"
    have s: "sealed env key opts ?c" using a by simp
    have acc: "\<forall>c \<in> set (chunksOf e). \<exists>plain.
        gcmDecrypt env key (iv c) (authTag c) (aad opts (index (chunkInfo c))) (data c) = Inr plain"
      using a sealed_accepted[of env key opts] by blast
    have one: "\<forall>n < 8 * length (data ?c).
           fst (decrypt env st (withChunk e j (?c\<lparr>data := flipBit n (data ?c)\<rparr>)) k opts) =
             Inl (External authenticationFailure)"
    proof (intro allI impI)
      fix n assume n: "n < 8 * length (data ?c)"
      let ?t = "?c\<lparr>data := flipBit n (data ?c)\<rparr>"
      have "gcmDecrypt env key (iv ?t) (authTag ?t) (aad opts (index (chunkInfo ?t))) (data ?t) =
              Inl authenticationFailure"
        using sealed_flipped_data[of env key opts ?c n] a s n by simp
      then have "decryptChunks env key opts (chunksOf (withChunk e j ?t)) [] =
              Inl (External authenticationFailure)"
        using tampered_chunk_rejected[of key e env opts j ?t authenticationFailure] a acc by blast
      then show "fst (decrypt env st (withChunk e j ?t) k opts) = Inl (External authenticationFailure)"
        using a by (simp add: decrypt_registered)
    qed
    have two: "\<forall>n < 8 * length (authTag ?c).
           fst (decrypt env st (withChunk e j (?c\<lparr>authTag := flipBit n (authTag ?c)\<rparr>)) k opts) =
             Inl (External authenticationFailure)"
    proof (intro allI impI)
      fix n assume n: "n < 8 * length (authTag ?c)"
      let ?t = "?c\<lparr>authTag := flipBit n (authTag ?c)\<rparr>"
      have "gcmDecrypt env key (iv ?t) (authTag ?t) (aad opts (index (chunkInfo ?t))) (data ?t) =
              Inl authenticationFailure"
        using sealed_flipped_tag[of env key opts ?c n] a s n by simp
      then have "decryptChunks env key opts (chunksOf (withChunk e j ?t)) [] =
              Inl (External authenticationFailure)"
        using tampered_chunk_rejected[of key e env opts j ?t authenticationFailure] a acc by blast
      then show "fst (decrypt env st (withChunk e j ?t) k opts) = Inl (External authenticationFailure)"
        using a by (simp add: decrypt_registered)
    qed
    from one two show "(\<forall>n < 8 * length (data ?c).
           fst (decrypt env st (withChunk e j (?c\<lparr>data := flipBit n (data ?c)\<rparr>)) k opts) =
             Inl (External authenticationFailure)) \<and>
        (\<forall>n < 8 * length (authTag ?c).
           fst (decrypt env st (withChunk e j (?c\<lparr>authTag := flipBit n (authTag ?c)\<rparr>)) k opts) =
             Inl (External authenticationFailure))"
      by (rule conjI)
  qed
  from derivation forwarded accepted flipped show ?thesis by (intro conjI)
qed

lemma flipChar_each: "list_all (\<lambda>i. flipChar i c \<noteq> c) [0, 1, 2, 3, 4, 5, 6, 7]"
  by (cases c) simp

lemma flipChar_differs:
  assumes "i < 8"
  shows "flipChar i c \<noteq> c"
proof -
  from assms have "i \<in> set [0, 1, 2, 3, 4, 5, 6, 7]" by simp presburger
  moreover have "\<forall>j \<in> set [0, 1, 2, 3, 4, 5, 6, 7]. flipChar j c \<noteq> c"
    using flipChar_each[of c] unfolding list_all_iff .
  ultimately show ?thesis by blast
qed

lemma flipBit_differs: "n < 8 * length s \<Longrightarrow> flipBit n s \<noteq> s"
proof -
  assume n: "n < 8 * length s"
  then have i: "n div 8 < length s" by (simp add: less_mult_imp_div_less mult.commute)
  have "flipBit n s ! (n div 8) = flipChar (n mod 8) (s ! (n div 8))"
    using i by (simp add: flipBit_def)
  then have "flipBit n s ! (n div 8) \<noteq> s ! (n div 8)"
    by (simp add: flipChar_differs)
  then show ?thesis by metis
qed

lemma standIn_authenticated: "authenticatedCipher aesEnv"
  unfolding authenticatedCipher_def
  by (auto simp: aesEnv_def flipBit_differs dest: sym)

text \<open>
  The stand-in cipher, the registered key and a chunk sealed under it: the chunk decrypts
  to its plaintext, and is rejected once the lowest bit of its first ciphertext byte, or
  the highest bit of its last tag byte, has been inverted.
\<close>

theorem decrypt_forwards_cipher_rejection_witness:
  "fst (decrypt aesEnv aesWithKey (Single sealedChunk) aesKey defaultOptions) = Inr ''systolic-bp:118'' \<and>
   flipBit 0 (data sealedChunk) = ''911:pb-cilotsys'' \<and>
   fst (decrypt aesEnv aesWithKey (Single (sealedChunk\<lparr>data := ''911:pb-cilotsys''\<rparr>)) aesKey
          defaultOptions) = Inl (External ''Unsupported state or unable to authenticate data'') \<and>
   fst (decrypt aesEnv aesWithKey
          (Single (sealedChunk\<lparr>authTag := flipBit 119 (authTag sealedChunk)\<rparr>)) aesKey
          defaultOptions) = Inl (External ''Unsupported state or unable to authenticate data'') \<and>
   fst (decrypt (aesEnv\<lparr>deriveKey := \<lambda>len salt ctx. Inl ''vault unreachable''\<rparr>) aesWithKey
          (Single sealedChunk) aesKey defaultOptions) = Inl (External ''vault unreachable'')"
proof (intro conjI)
  let ?ki = "\<lparr>keySize = 256, ki_keyType = ''patient-data'', ownerId = Some ''patient-42'',
      quantumSalt = ''SALT'', createdAt = 1699990000000, lastUsed = None,
      rotationSchedule = ''30d'', ki_status = None\<rparr>"
  let ?key = "''DERIVED-KEY-OF-32-BYTES-00000001''"
  let ?e = "Single sealedChunk"
  have r: "keyRegistry aesWithKey aesKey = Some ?ki" by (simp add: aesWithKey_def)
  have dk: "deriveKey aesEnv (keySize ?ki) (quantumSalt ?ki) (keyContext ?ki) = Inr ?key"
    by (simp add: aesEnv_def)
  have l: "length ?key = 32" by simp
  have cs: "chunksOf ?e = [sealedChunk]" by (simp add: chunksOf_def)
  have "sealed aesEnv ?key defaultOptions sealedChunk"
    unfolding sealed_def
    by (rule exI[of _ "''systolic-bp:118''"]) (simp add: aesEnv_def sealedChunk_def)
  then have s: "\<forall>c \<in> set (chunksOf ?e). sealed aesEnv ?key defaultOptions c"
    by (simp add: cs)
  have j: "0 < length (chunksOf ?e)" by (simp add: cs)
  note t = decrypt_forwards_cipher_rejection[of aesWithKey aesKey ?ki aesEnv ?e defaultOptions ?key 0]
  show "fst (decrypt aesEnv aesWithKey ?e aesKey defaultOptions) = Inr ''systolic-bp:118''"
    by (simp add: decrypt_registered[OF r dk] cs) (simp add: aesEnv_def sealedChunk_def)
  show f: "flipBit 0 (data sealedChunk) = ''911:pb-cilotsys''"
    by (simp add: flipBit_def sealedChunk_def)
  have n0: "0 < 8 * length (data (chunksOf ?e ! 0))" by (simp add: cs) (simp add: sealedChunk_def)
  from t standIn_authenticated r dk l s j n0
  have "fst (decrypt aesEnv aesWithKey
          (withChunk ?e 0 ((chunksOf ?e ! 0)\<lparr>data := flipBit 0 (data (chunksOf ?e ! 0))\<rparr>)) aesKey
          defaultOptions) = Inl (External authenticationFailure)"
    by blast
  then show "fst (decrypt aesEnv aesWithKey (Single (sealedChunk\<lparr>data := ''911:pb-cilotsys''\<rparr>)) aesKey
          defaultOptions) = Inl (External ''Unsupported state or unable to authenticate data'')"
    by (simp add: cs withChunk_def f authenticationFailure_def)
  have n1: "119 < 8 * length (authTag (chunksOf ?e ! 0))" by (simp add: cs) (simp add: sealedChunk_def)
  from t standIn_authenticated r dk l s j n1
  have "fst (decrypt aesEnv aesWithKey
          (withChunk ?e 0 ((chunksOf ?e ! 0)\<lparr>authTag := flipBit 119 (authTag (chunksOf ?e ! 0))\<rparr>)) aesKey
          defaultOptions) = Inl (External authenticationFailure)"
    by blast
  then show "fst (decrypt aesEnv aesWithKey
          (Single (sealedChunk\<lparr>authTag := flipBit 119 (authTag sealedChunk)\<rparr>)) aesKey
          defaultOptions) = Inl (External ''Unsupported state or unable to authenticate data'')"
    by (simp add: cs withChunk_def authenticationFailure_def)
  let ?down = "aesEnv\<lparr>deriveKey := \<lambda>len salt ctx. Inl ''vault unreachable''\<rparr>"
  have "deriveKey ?down (keySize ?ki) (quantumSalt ?ki) (keyContext ?ki) = Inl ''vault unreachable''"
    by simp
  with decrypt_forwards_cipher_rejection[of aesWithKey aesKey ?ki ?down ?e defaultOptions] r
  show "fst (decrypt ?down aesWithKey ?e aesKey defaultOptions) = Inl (External ''vault unreachable'')"
    by blast
qed

subsection \<open>The backend's service\<close>

lemma decrypt_encrypt_block: "decryptBlock c (encryptBlock c x) = x"
  using Rep_blockCipher[of c] by (auto simp: decryptBlock_def encryptBlock_def split: prod.splits)

lemma blocks_vitals:
  "blocksOf (pkcs7 vitals) =
     [blockOf ''systolic-bp:118;'', blockOf (''pulse:64'' @ replicate 8 (char_of (8::nat)))]"
  by code_simp

lemma bytes_first: "bytesOf (blockOf ''systolic-bp:118;'') = ''systolic-bp:118;''"
  by code_simp

lemma bytes_second:
  "bytesOf (blockOf (''pulse:64'' @ replicate 8 (char_of (8::nat)))) =
     ''pulse:64'' @ replicate 8 (char_of (8::nat))"
  by code_simp

lemma bytes_second_flipped:
  "bytesOf (blockOf (''pulse:64'' @ replicate 8 (char_of (8::nat))) XOR push_bit 120 1) =
     ''qulse:64'' @ replicate 8 (char_of (8::nat))"
  by code_simp

lemma length_bytesOf: "length (bytesOf w) = 16"
  by (simp add: bytesOf_def)

lemma unpad_eight:
  assumes "length g = 16" and "length t = 8"
  shows "unpad (g @ t @ replicate 8 (char_of (8::nat))) = Inr (g @ t)"
proof -
  let ?bs = "g @ t @ replicate 8 (char_of (8::nat))"
  have l: "last ?bs = char_of (8::nat)" by simp
  have n: "of_char (char_of (8::nat)) = (8::nat)" by simp
  have len: "length ?bs - 8 = 24" using assms by simp
  have d: "drop 24 ?bs = replicate 8 (char_of (8::nat))" using assms by simp
  have t: "take 24 ?bs = g @ t" using assms by simp
  have ne: "?bs \<noteq> []" by simp
  show ?thesis
    unfolding unpad_def Let_def l n len d t using ne by (simp add: list_ex_iff)
qed

lemma xor_chain: "(p XOR c) XOR (c XOR m) = p XOR (m :: block)"
  by (simp add: xor.assoc xor.left_commute)

text \<open>
  Claim C4 as stated says that \<^verbatim>\<open>decrypt\<close> never returns corrupted plaintext silently.
  The backend's service, with any AES and any initialization vector: the text is
  encrypted to two blocks, which decrypt to the text; with one bit of the first block
  inverted, \<^verbatim>\<open>decrypt\<close> raises nothing and returns sixteen other bytes followed by the
  rest of the text with one bit inverted.
\<close>

theorem cbc_returns_corrupted_plaintext_counterexample:
  "\<forall>E v. \<exists>c1 c2 g.
     encrypt_cbc (cbcEnv E v) vitals backendKey = Inr \<lparr>cbc_iv = v, encryptedData = [c1, c2]\<rparr> \<and>
     decrypt_cbc (cbcEnv E v) [c1, c2] backendKey v = Inr ''systolic-bp:118;pulse:64'' \<and>
     decrypt_cbc (cbcEnv E v) [flip_bit 120 c1, c2] backendKey v = Inr (g @ ''qulse:64'') \<and>
     length g = 16"
proof (intro allI)
  fix E :: "string \<Rightarrow> blockCipher" and v :: block
  define c where "c = E backendKey"
  define p1 where "p1 = blockOf ''systolic-bp:118;''"
  define p2 where "p2 = blockOf (''pulse:64'' @ replicate 8 (char_of (8::nat)))"
  define c1 where "c1 = encryptBlock c (p1 XOR v)"
  define c2 where "c2 = encryptBlock c (p2 XOR c1)"
  define g where "g = bytesOf (decryptBlock c (flip_bit 120 c1) XOR v)"
  have k: "length backendKey = 32" by (simp add: backendKey_def)
  have b: "blocksOf (pkcs7 vitals) = [p1, p2]" unfolding p1_def p2_def by (rule blocks_vitals)
  have b1: "bytesOf p1 = ''systolic-bp:118;''" unfolding p1_def by (rule bytes_first)
  have b2: "bytesOf p2 = ''pulse:64'' @ replicate 8 (char_of (8::nat))"
    unfolding p2_def by (rule bytes_second)
  have b3: "bytesOf (p2 XOR push_bit 120 1) = ''qulse:64'' @ replicate 8 (char_of (8::nat))"
    unfolding p2_def by (rule bytes_second_flipped)
  have lg: "length g = 16" unfolding g_def by (rule length_bytesOf)
  have e: "encrypt_cbc (cbcEnv E v) vitals backendKey = Inr \<lparr>cbc_iv = v, encryptedData = [c1, c2]\<rparr>"
    by (simp add: encrypt_cbc_def k cbcEnv_def b Let_def c_def c1_def c2_def)
  have d: "cbcDecrypt c v [c1, c2] = [p1, p2]"
    by (simp add: c1_def c2_def decrypt_encrypt_block xor.assoc)
  have "decrypt_cbc (cbcEnv E v) [c1, c2] backendKey v =
          unpad (concat (map bytesOf (cbcDecrypt c v [c1, c2])))"
    by (simp add: decrypt_cbc_def k cbcEnv_def c_def del: cbcDecrypt.simps)
  also have "\<dots> = unpad (''systolic-bp:118;'' @ ''pulse:64'' @ replicate 8 (char_of (8::nat)))"
    by (simp only: d list.map concat.simps b1 b2 append_Nil2)
  also have "\<dots> = Inr (''systolic-bp:118;'' @ ''pulse:64'')"
    by (rule unpad_eight) simp_all
  finally have p: "decrypt_cbc (cbcEnv E v) [c1, c2] backendKey v = Inr ''systolic-bp:118;pulse:64''"
    by simp
  have "decryptBlock c c2 XOR flip_bit 120 c1 = p2 XOR push_bit 120 1"
    by (simp only: c2_def decrypt_encrypt_block flip_bit_eq_xor xor_chain)
  then have t: "cbcDecrypt c v [flip_bit 120 c1, c2] =
      [decryptBlock c (flip_bit 120 c1) XOR v, p2 XOR push_bit 120 1]"
    by simp
  have "decrypt_cbc (cbcEnv E v) [flip_bit 120 c1, c2] backendKey v =
          unpad (concat (map bytesOf (cbcDecrypt c v [flip_bit 120 c1, c2])))"
    by (simp add: decrypt_cbc_def k cbcEnv_def c_def del: cbcDecrypt.simps)
  also have "\<dots> = unpad (g @ ''qulse:64'' @ replicate 8 (char_of (8::nat)))"
    by (simp only: t list.map concat.simps b3 g_def append_Nil2)
  also have "\<dots> = Inr (g @ ''qulse:64'')"
    using lg by (rule unpad_eight) simp
  finally have q: "decrypt_cbc (cbcEnv E v) [flip_bit 120 c1, c2] backendKey v = Inr (g @ ''qulse:64'')" .
  from e p q lg
  show "\<exists>c1 c2 g.
     encrypt_cbc (cbcEnv E v) vitals backendKey = Inr \<lparr>cbc_iv = v, encryptedData = [c1, c2]\<rparr> \<and>
     decrypt_cbc (cbcEnv E v) [c1, c2] backendKey v = Inr ''systolic-bp:118;pulse:64'' \<and>
     decrypt_cbc (cbcEnv E v) [flip_bit 120 c1, c2] backendKey v = Inr (g @ ''qulse:64'') \<and>
     length g = 16"
    by blast
qed

end
